theory Spec2Isabelle
  imports Main
begin

chapter \<open>Embedding of the automation engine\<close>

section \<open>JavaScript strings\<close>

text \<open>
  Strings are lists of 8-bit characters, so the embedding covers ASCII text: the
  functions below treat the letters \<open>A\<close>..\<open>Z\<close>, the decimal digits and the ASCII
  white space the way the JavaScript built-ins do, and leave every other character alone.
\<close>

definition toLowerChar :: "char \<Rightarrow> char" where
  "toLowerChar c =
     (case map_of (zip ''ABCDEFGHIJKLMNOPQRSTUVWXYZ'' ''abcdefghijklmnopqrstuvwxyz'') c of
        None \<Rightarrow> c
      | Some lower \<Rightarrow> lower)"

definition toLowerCase :: "string \<Rightarrow> string" where
  "toLowerCase s = map toLowerChar s"

text \<open>\<open>String.prototype.includes\<close>: the needle occurs as a contiguous run.\<close>

fun starts_with :: "string \<Rightarrow> string \<Rightarrow> bool" where
  "starts_with s [] = True"
| "starts_with [] (w # ws) = False"
| "starts_with (c # cs) (w # ws) = (c = w \<and> starts_with cs ws)"

fun str_includes :: "string \<Rightarrow> string \<Rightarrow> bool" where
  "str_includes [] w = (w = [])"
| "str_includes (c # cs) w = (starts_with (c # cs) w \<or> str_includes cs w)"

text \<open>
  \<open>String.prototype.split\<close> with a one-character separator: the pieces between the
  separators, empty pieces included, so the empty string splits into one empty piece.
\<close>

fun str_split :: "char \<Rightarrow> string \<Rightarrow> string list" where
  "str_split sep [] = [[]]"
| "str_split sep (c # cs) =
     (if c = sep then [] # str_split sep cs
      else (case str_split sep cs of
              [] \<Rightarrow> [[c]]
            | w # ws \<Rightarrow> (c # w) # ws))"

definition isDigit :: "char \<Rightarrow> bool" where
  "isDigit c = (let n = (of_char c :: nat) in 48 \<le> n \<and> n \<le> 57)"

definition digitVal :: "char \<Rightarrow> int" where
  "digitVal c = int (of_char c) - 48"

text \<open>The value of a run of digits in a radix, most significant digit first.\<close>

definition digitsValue :: "int \<Rightarrow> int list \<Rightarrow> int" where
  "digitsValue radix ds = foldl (\<lambda>acc d. acc * radix + d) 0 ds"

section \<open>Discovery and ranking (alert-system.ts, class GroupDiscovery)\<close>

record GroupInfo =
  url :: string
  name :: string
  memberCount :: int
  isJoined :: bool
  relevanceScore :: "int option"
  searchKeyword :: "string option"
  category :: "string option"
  description :: "string option"

subsection \<open>parseMemberCount\<close>

text \<open>
  \<open>parseFloat\<close> on the text that \<open>text.replace(/[^0-9.]/g, '')\<close> leaves, which holds
  digits and dots only: the longest prefix of the shape \<open>digits\<close>, \<open>digits.digits\<close>,
  \<open>digits.\<close> or \<open>.digits\<close>. The result is a decimal number, given as its digits read as
  an integer and the count of digits behind the point; \<open>None\<close> is \<open>NaN\<close>.
\<close>

definition parseFloat :: "string \<Rightarrow> (int \<times> nat) option" where
  "parseFloat s =
     (let intPart = takeWhile isDigit s;
          rest = dropWhile isDigit s;
          fracPart = (case rest of
                        [] \<Rightarrow> []
                      | c # r \<Rightarrow> if c = CHR ''.'' then takeWhile isDigit r else [])
      in if intPart = [] \<and> fracPart = [] then None
         else Some (digitsValue 10 (map digitVal (intPart @ fracPart)), length fracPart))"

text \<open>
  The source multiplies two doubles and takes \<open>Math.floor\<close>; the embedding multiplies
  the decimal number exactly, so \<open>Math.floor(num * multiplier)\<close> is the integer
  quotient below. Both agree wherever the double product is exact, as it is for
  \<open>1.2 * 1000000\<close>; where the product is rounded below an integer the source returns
  one less (\<open>4.1 * 1000000\<close>).
\<close>

definition parseMemberCount :: "string \<Rightarrow> int" where
  "parseMemberCount text =
     (if text = [] then 0
      else
        let textLower = toLowerCase text;
            multiplier0 = (1 :: int);
            multiplier1 = (if str_includes textLower ''k'' then 1000 else multiplier0);
            multiplier = (if str_includes textLower ''m'' then 1000000 else multiplier1);
            num = parseFloat (filter (\<lambda>c. isDigit c \<or> c = CHR ''.'') text)
        in case num of
             None \<Rightarrow> 0
           | Some (digits, decimals) \<Rightarrow> (digits * multiplier) div 10 ^ decimals)"

subsection \<open>calculateRelevanceScore\<close>

definition calculateRelevanceScore :: "GroupInfo \<Rightarrow> string \<Rightarrow> int" where
  "calculateRelevanceScore grp keyword =
     (let nm = toLowerCase (GroupInfo.name grp);
          kw = toLowerCase keyword;
          score0 = (if str_includes nm kw then 50 else 0);
          score1 = fold (\<lambda>word score. if str_includes nm word then score + 10 else score)
                     (str_split CHR '' '' kw) score0;
          score2 = (if memberCount grp > 50000 then score1 + 20
                    else if memberCount grp > 10000 then score1 + 10
                    else score1)
      in min score2 100)"

text \<open>
  The score as the specification words it: 50 for the full keyword, 10 for each keyword
  word found in the name, the member bonus, capped at 100.
\<close>

definition relevance_spec :: "GroupInfo \<Rightarrow> string \<Rightarrow> int" where
  "relevance_spec grp keyword =
     (let nm = toLowerCase (GroupInfo.name grp);
          kw = toLowerCase keyword
      in min 100
           ((if str_includes nm kw then 50 else 0)
            + 10 * int (length (filter (str_includes nm) (str_split CHR '' '' kw)))
            + (if memberCount grp > 50000 then 20
               else if memberCount grp > 10000 then 10 else 0)))"

subsection \<open>removeDuplicateGroups\<close>

text \<open>
  The filter callback reads and extends the set \<open>seen\<close>; the set is threaded through
  the traversal, which visits the groups in array order.
\<close>

fun filterSeen :: "string set \<Rightarrow> GroupInfo list \<Rightarrow> GroupInfo list" where
  "filterSeen seen [] = []"
| "filterSeen seen (grp # groups) =
     (if GroupInfo.url grp \<in> seen then filterSeen seen groups
      else grp # filterSeen (insert (GroupInfo.url grp) seen) groups)"

definition removeDuplicateGroups :: "GroupInfo list \<Rightarrow> GroupInfo list" where
  "removeDuplicateGroups groups = filterSeen {} groups"

section \<open>Interactive selection (group-selector.ts, class GroupSelector)\<close>

subsection \<open>parseInt and trim\<close>

definition isWhiteSpace :: "char \<Rightarrow> bool" where
  "isWhiteSpace c = ((of_char c :: nat) \<in> {9, 10, 11, 12, 13, 32})"

definition trim :: "string \<Rightarrow> string" where
  "trim s = rev (dropWhile isWhiteSpace (rev (dropWhile isWhiteSpace s)))"

text \<open>The value of a character as a digit: \<open>0\<close>..\<open>9\<close>, then the letters from 10 on.\<close>

definition digitOf :: "char \<Rightarrow> int option" where
  "digitOf c =
     (let n = int (of_char c)
      in if 48 \<le> n \<and> n \<le> 57 then Some (n - 48)
         else if 97 \<le> n \<and> n \<le> 122 then Some (n - 87)
         else if 65 \<le> n \<and> n \<le> 90 then Some (n - 55)
         else None)"

fun leadingDigits :: "int \<Rightarrow> string \<Rightarrow> int list" where
  "leadingDigits radix [] = []"
| "leadingDigits radix (c # cs) =
     (case digitOf c of
        None \<Rightarrow> []
      | Some d \<Rightarrow> if d < radix then d # leadingDigits radix cs else [])"

text \<open>
  \<open>parseInt(string)\<close> without a radix: leading white space is skipped, a sign is read,
  a prefix \<open>0x\<close> or \<open>0X\<close> selects radix 16 and otherwise the radix is 10, and the value
  is that of the longest run of digits that follows; what comes after the run is ignored.
  \<open>None\<close> is \<open>NaN\<close>, the result when there is no digit. Values are exact integers (a
  double is exact up to \<open>2^53\<close>).
\<close>

definition parseInt :: "string \<Rightarrow> int option" where
  "parseInt str =
     (let s = dropWhile isWhiteSpace str;
          sign = (case s of [] \<Rightarrow> 1 | c # r \<Rightarrow> if c = CHR ''-'' then - 1 else (1 :: int));
          s1 = (case s of [] \<Rightarrow> [] | c # r \<Rightarrow> if c = CHR ''-'' \<or> c = CHR ''+'' then r else s);
          hex = (case s1 of
                   a # b # r \<Rightarrow> a = CHR ''0'' \<and> (b = CHR ''x'' \<or> b = CHR ''X'')
                 | _ \<Rightarrow> False);
          radix = (if hex then 16 else 10);
          s2 = (if hex then drop 2 s1 else s1);
          ds = leadingDigits radix s2
      in if ds = [] then None else Some (sign * digitsValue radix ds))"

subsection \<open>parseSelection\<close>

text \<open>
  A \<open>Set<number>\<close> keeps its members in insertion order, which is the order in which
  \<open>Array.from\<close> lists them.
\<close>

definition setAdd :: "int \<Rightarrow> int list \<Rightarrow> int list" where
  "setAdd i indices = (if i \<in> set indices then indices else indices @ [i])"

text \<open>
  The loop body for one comma-separated part. In a condition \<open>NaN\<close> and \<open>0\<close> are
  falsy; in the range branch only the first two pieces between dashes are read.
\<close>

definition addPart :: "int \<Rightarrow> string \<Rightarrow> int list \<Rightarrow> int list" where
  "addPart maxIndex part indices =
     (if str_includes part ''-'' then
        (case map (\<lambda>num. parseInt (trim num)) (str_split CHR ''-'' part) of
           Some start # Some end # _ \<Rightarrow>
             if start \<noteq> 0 \<and> end \<noteq> 0 \<and> start \<le> end \<and> start \<ge> 1 \<and> end \<le> maxIndex
             then fold setAdd [start..end] indices
             else indices
         | _ \<Rightarrow> indices)
      else
        (case parseInt part of
           Some num \<Rightarrow>
             if num \<noteq> 0 \<and> num \<ge> 1 \<and> num \<le> maxIndex then setAdd num indices else indices
         | None \<Rightarrow> indices))"

text \<open>
  No operation in the \<open>try\<close> block can throw on a string, so the \<open>catch\<close> branch has no
  counterpart. The comparator \<open>(a, b) => a - b\<close> sorts the numbers ascending.
\<close>

definition parseSelection :: "string \<Rightarrow> int \<Rightarrow> int list" where
  "parseSelection input maxIndex =
     (let parts = map trim (str_split CHR '','' input);
          indices = fold (addPart maxIndex) parts []
      in sort indices)"

text \<open>
  The input format that the prompt of \<open>interactiveSelection\<close> announces: numbers
  separated by commas, and ranges written with a dash.
\<close>

definition isNumberText :: "string \<Rightarrow> bool" where
  "isNumberText s = (s \<noteq> [] \<and> list_all isDigit s)"

definition wellFormedPart :: "string \<Rightarrow> bool" where
  "wellFormedPart part =
     (case str_split CHR ''-'' part of
        [n] \<Rightarrow> isNumberText n
      | [a, b] \<Rightarrow> isNumberText (trim a) \<and> isNumberText (trim b)
      | _ \<Rightarrow> False)"

text \<open>
  What one part selects, read off the two branches: a part with a dash selects the range
  between the integers that lead its first two pieces, a part without a dash the integer
  that leads it, and in both cases only within \<open>1..maxIndex\<close>.
\<close>

definition partIndices :: "int \<Rightarrow> string \<Rightarrow> int set" where
  "partIndices maxIndex part =
     (if str_includes part ''-'' then
        (case map (\<lambda>num. parseInt (trim num)) (str_split CHR ''-'' part) of
           Some start # Some end # _ \<Rightarrow>
             if 1 \<le> start \<and> end \<le> maxIndex then {start..end} else {}
         | _ \<Rightarrow> {})
      else
        (case parseInt part of
           Some num \<Rightarrow> if 1 \<le> num \<and> num \<le> maxIndex then {num} else {}
         | None \<Rightarrow> {}))"

section \<open>The browser, the clock and the files\<close>

text \<open>
  The code drives one browser page and reads the clock and the session file. What it has
  done so far is a list of events, oldest first; what the page, the clock and the files
  answer is a function of that list, so the environment may change with everything the
  code does, with every wait included. Reading (element visibility, the clock, the page
  URL, a file) leaves no event.
\<close>

datatype level = Info | Warn | Err

datatype event =
    Goto string
  | Reload
  | AddCookies "string list"
  | SetLocalStorage "(string \<times> string) list"
  | SetSessionStorage "(string \<times> string) list"
  | Sleep int int
  | ScrollIntoView string
  | MoveToElement string
  | Click string
  | LocatorAll string
  | InputClick nat
  | InputFill nat string
  | Log level string

text \<open>
  \<open>Goto\<close> is \<open>page.goto(url, {waitUntil: 'networkidle'})\<close>, \<open>Reload\<close> is
  \<open>page.reload\<close>, \<open>AddCookies\<close> is \<open>context.addCookies\<close>, the two storage events are
  the \<open>page.evaluate\<close> calls that write the entries, \<open>Sleep min max\<close> is
  \<open>DELAYS.random(min, max)\<close> (with the line it logs), \<open>ScrollIntoView\<close> is
  \<open>locator.scrollIntoViewIfNeeded\<close>, \<open>MoveToElement\<close> is \<open>MOUSE.moveToElement\<close>,
  \<open>Click\<close> is \<open>page.click\<close>, \<open>LocatorAll\<close> is \<open>page.locator(selector).all()\<close>,
  \<open>InputClick i\<close> and \<open>InputFill i text\<close> act on the \<open>i\<close>-th located input, and
  \<open>Log\<close> is a call of \<open>logger.info\<close>, \<open>logger.warn\<close> or \<open>logger.error\<close>.

  A rejected promise carries a thrown value; \<open>error instanceof Error\<close> holds for the
  first kind only.
\<close>

datatype thrown = Error string | NonError

record SessionData =
  cookies :: "string list"
  localStorage :: "(string \<times> string) list"
  sessionStorage :: "(string \<times> string) list"
  url :: string
  timestamp :: string
  userAgent :: string

text \<open>
  \<open>isVisible\<close> is \<open>VALIDATION.isElementVisible\<close>, which answers false when the lookup
  throws. \<open>rejects\<close> tells whether an awaited page call rejects, and with what.
  \<open>dateParse\<close> is \<open>new Date(text).getTime()\<close>, with \<open>None\<close> for \<open>NaN\<close>.
  \<open>shouldStop\<close> and \<open>interventionRequired\<close> are the two flags that other tasks write
  while a batch runs: \<open>stop()\<close> sets the first, the alert monitor sets and clears the
  second (read through \<open>isWaitingForIntervention\<close>).
\<close>

record env =
  isVisible :: "event list \<Rightarrow> string \<Rightarrow> bool"
  rejects :: "event list \<Rightarrow> event \<Rightarrow> thrown option"
  dateNow :: "event list \<Rightarrow> int"
  pageUrl :: "event list \<Rightarrow> string"
  locatorCount :: "event list \<Rightarrow> string \<Rightarrow> nat"
  pathExists :: "event list \<Rightarrow> string \<Rightarrow> bool"
  readJson :: "event list \<Rightarrow> string \<Rightarrow> thrown + SessionData"
  dateParse :: "string \<Rightarrow> int option"
  shouldStop :: "event list \<Rightarrow> bool"
  interventionRequired :: "event list \<Rightarrow> bool"

text \<open>
  An awaited call: the event is recorded, and the call either resolves (\<open>Inr\<close>) or
  throws (\<open>Inl\<close>); \<open>andThen\<close> runs the rest of a \<open>try\<close> block after a call that
  resolved.
\<close>

definition await :: "env \<Rightarrow> event \<Rightarrow> event list \<Rightarrow> (thrown \<times> event list) + event list" where
  "await e ev h =
     (case rejects e h ev of
        None \<Rightarrow> Inr (h @ [ev])
      | Some t \<Rightarrow> Inl (t, h @ [ev]))"

definition andThen ::
  "(thrown \<times> event list) + event list \<Rightarrow> (event list \<Rightarrow> (thrown \<times> event list) + 'a)
     \<Rightarrow> (thrown \<times> event list) + 'a" where
  "andThen r k = (case r of Inl t \<Rightarrow> Inl t | Inr h \<Rightarrow> k h)"

text \<open>\<open>ERROR_HANDLER.handle(error, context)\<close>, guarded by \<open>error instanceof Error\<close>.\<close>

definition handleIfError :: "thrown \<Rightarrow> string \<Rightarrow> event list \<Rightarrow> event list" where
  "handleIfError t ctx h =
     (case t of
        Error msg \<Rightarrow> h @ [Log Err (''Automation error in '' @ ctx @ '':'')]
      | NonError \<Rightarrow> h)"

definition errorMessage :: "thrown \<Rightarrow> string" where
  "errorMessage t = (case t of Error msg \<Rightarrow> msg | NonError \<Rightarrow> ''An unknown error occurred'')"

text \<open>The three named waits of \<open>DELAYS\<close>.\<close>

definition DELAYS_short :: event where "DELAYS_short = Sleep 500 1500"
definition DELAYS_medium :: event where "DELAYS_medium = Sleep 1500 3500"
definition DELAYS_long :: event where "DELAYS_long = Sleep 3000 6000"

section \<open>Session store (session-manager.ts)\<close>

record SessionManager =
  sessionFile :: string
  session :: "SessionData option"

definition LOGIN_loginForm :: string where
  "LOGIN_loginForm = ''#loginform''"

definition loggedInIndicators :: "string list" where
  \<open>loggedInIndicators =
     [''[data-testid="blue_bar"]'', ''[role="banner"]'', ''[data-testid="news_feed"]'',
      ''[data-testid="left_nav_menu"]'']\<close>

definition loggedInUrls :: "string list" where
  "loggedInUrls = [''facebook.com/home'', ''facebook.com/?sk='', ''facebook.com/profile'']"

text \<open>
  \<open>verifyLogin\<close>. Nothing inside its \<open>try\<close> block throws (a wait, visibility
  checks, the page URL), so its \<open>catch\<close> branch has no counterpart.
\<close>

definition verifyLogin :: "env \<Rightarrow> event list \<Rightarrow> bool \<times> event list" where
  "verifyLogin e h =
     (let h1 = h @ [DELAYS_short]
      in if isVisible e h1 LOGIN_loginForm then (False, h1)
         else if list_ex (isVisible e h1) loggedInIndicators
           then (True, h1 @ [Log Info ''Login verification successful''])
         else if list_ex (str_includes (pageUrl e h1)) loggedInUrls
           then (True, h1 @ [Log Info ''Login verified by URL pattern''])
         else (False, h1))"

definition maxAge :: int where
  "maxAge = 24 * 60 * 60 * 1000"

text \<open>
  The \<open>try\<close> block of \<open>loadSession\<close>. A comparison with \<open>NaN\<close> is false, so a
  timestamp that does not parse is not too old.
\<close>

definition loadSession_try ::
  "env \<Rightarrow> SessionManager \<Rightarrow> event list
     \<Rightarrow> (thrown \<times> event list) + (bool \<times> SessionManager \<times> event list)" where
  "loadSession_try e mgr h =
     (if \<not> pathExists e h (sessionFile mgr)
      then Inr (False, mgr, h @ [Log Info ''No existing session file found''])
      else
        let h1 = h @ [Log Info ''Loading Facebook session...'']
        in case readJson e h1 (sessionFile mgr) of
             Inl t \<Rightarrow> Inl (t, h1)
           | Inr sessionData \<Rightarrow>
               let tooOld = (case dateParse e (timestamp sessionData) of
                               None \<Rightarrow> False
                             | Some t \<Rightarrow> dateNow e h1 - t > maxAge)
               in if tooOld
                  then Inr (False, mgr,
                         h1 @ [Log Warn ''Session is too old, will require fresh login''])
                  else
                    andThen (if cookies sessionData \<noteq> []
                             then await e (AddCookies (cookies sessionData)) h1
                             else Inr h1) (\<lambda>h2.
                    andThen (await e (Goto ''https://www.facebook.com'') h2) (\<lambda>h3.
                    andThen (await e (SetLocalStorage (localStorage sessionData))
                               (h3 @ [DELAYS_medium])) (\<lambda>h4.
                    andThen (await e (SetSessionStorage (sessionStorage sessionData)) h4) (\<lambda>h5.
                    andThen (await e Reload h5) (\<lambda>h6.
                      let (isLoggedIn, h7) = verifyLogin e (h6 @ [DELAYS_long])
                      in if isLoggedIn
                         then Inr (True, mgr\<lparr>session := Some sessionData\<rparr>,
                                h7 @ [Log Info ''Session restored successfully''])
                         else Inr (False, mgr,
                                h7 @ [Log Warn
                                  ''Session restoration failed - login required''])))))))"

definition loadSession ::
  "env \<Rightarrow> SessionManager \<Rightarrow> event list \<Rightarrow> bool \<times> SessionManager \<times> event list" where
  "loadSession e mgr h =
     (case loadSession_try e mgr h of
        Inr r \<Rightarrow> r
      | Inl (t, h') \<Rightarrow> (False, mgr, handleIfError t ''loadSession'' h'))"

text \<open>The events that restore session state into the browser.\<close>

fun restores :: "event \<Rightarrow> bool" where
  "restores (AddCookies cs) = True"
| "restores (SetLocalStorage kvs) = True"
| "restores (SetSessionStorage kvs) = True"
| "restores ev = False"

section \<open>Selectors (config/selectors.ts)\<close>

definition GROUPS_joinButton :: string where
  \<open>GROUPS_joinButton = ''[data-testid="group_mall_post_button"]''\<close>

definition GROUPS_joinButtonAlt :: string where
  \<open>GROUPS_joinButtonAlt = ''div[role="button"]:has-text("Join Group")''\<close>

definition GROUPS_joinButtonAlt2 :: string where
  \<open>GROUPS_joinButtonAlt2 = ''div[role="button"]:has-text("Join")''\<close>

definition GROUPS_membershipQuestions :: string where
  \<open>GROUPS_membershipQuestions = ''[data-testid="group_questions_card"]''\<close>

definition GROUPS_submitQuestions :: string where
  \<open>GROUPS_submitQuestions = ''div[role="button"]:has-text("Submit")''\<close>

definition GROUPS_skipQuestions :: string where
  \<open>GROUPS_skipQuestions = ''div[role="button"]:has-text("Skip")''\<close>

text \<open>The category \<open>FACEBOOK_SELECTORS.GROUPS\<close>, its keys in the order of the object.\<close>

definition GROUPS :: "(string \<times> string) list" where
  \<open>GROUPS =
     [(''joinButton'', GROUPS_joinButton),
      (''joinButtonAlt'', GROUPS_joinButtonAlt),
      (''joinButtonAlt2'', GROUPS_joinButtonAlt2),
      (''postButton'', ''[data-testid="group_mall_post_button"]''),
      (''postButtonAlt'', ''div[role="button"]:has-text("Write something")''),
      (''createPostButton'', ''[data-testid="status-attachment-mentions-input"]''),
      (''membershipQuestions'', GROUPS_membershipQuestions),
      (''submitQuestions'', GROUPS_submitQuestions),
      (''skipQuestions'', GROUPS_skipQuestions),
      (''JOINED_GROUP_ITEM'', ''a[href*="/groups/"]''),
      (''JOINED_GROUP_NAME'', ''span''),
      (''SEARCH_RESULT_ITEM'', ''div[role="article"]''),
      (''SEARCH_GROUP_NAME'', ''a[href*="/groups/"] > span''),
      (''SEARCH_MEMBER_COUNT'', ''div > span:has-text("members")'')]\<close>

definition BLOCKS_blocked :: string where
  \<open>BLOCKS_blocked = ''div:has-text("blocked")''\<close>

definition BLOCKS_restricted :: string where
  \<open>BLOCKS_restricted = ''div:has-text("restricted")''\<close>

text \<open>
  \<open>SELECTOR_UTILS.getMultipleSelectors\<close>, given the table of the category: the
  selectors of all keys that start with the element name. The table holds the keys
  written in the source; the names every object inherits are not elements of it.
\<close>

definition getMultipleSelectors :: "(string \<times> string) list \<Rightarrow> string \<Rightarrow> string list" where
  "getMultipleSelectors categorySelectors element =
     (case map_of categorySelectors element of
        None \<Rightarrow> []
      | Some baseSelector \<Rightarrow>
          if baseSelector = [] then []
          else
            let alternatives =
                  map snd (filter (\<lambda>(key, selector). starts_with key element) categorySelectors)
            in if alternatives \<noteq> [] then alternatives else [baseSelector])"

section \<open>Arrays held by reference\<close>

text \<open>
  The managers keep their result lists in arrays that accessors copy, so arrays live in
  a store: an address names an array, \<open>newArray\<close> allocates a fresh one, \<open>push\<close>
  appends in place.
\<close>

record 'a heap =
  arrays :: "nat \<Rightarrow> 'a list"
  nextFree :: nat

definition newArray :: "'a list \<Rightarrow> 'a heap \<Rightarrow> nat \<times> 'a heap" where
  "newArray xs hp =
     (nextFree hp, hp\<lparr>arrays := (arrays hp)(nextFree hp := xs), nextFree := Suc (nextFree hp)\<rparr>)"

definition push :: "nat \<Rightarrow> 'a \<Rightarrow> 'a heap \<Rightarrow> 'a heap" where
  "push a x hp = hp\<lparr>arrays := (arrays hp)(a := arrays hp a @ [x])\<rparr>"

text \<open>
  Any mutation of an array in place (\<open>push\<close>, \<open>pop\<close>, \<open>splice\<close>, an assignment to an
  index or to \<open>length\<close>) replaces the contents held at its address.
\<close>

definition overwrite :: "nat \<Rightarrow> 'a list \<Rightarrow> 'a heap \<Rightarrow> 'a heap" where
  "overwrite a xs hp = hp\<lparr>arrays := (arrays hp)(a := xs)\<rparr>"

section \<open>Joining groups (group-manager.ts)\<close>

record JoinGroupOptions =
  skipQuestions :: "bool option"
  questionAnswers :: "(nat \<rightharpoonup> string) option"
  maxWaitTime :: "int option"

text \<open>
  The keys of \<open>questionAnswers\<close> that the code can read are the indices of the question
  inputs. The time stamp of a result is the clock reading, in milliseconds, that the
  source renders as an ISO string.
\<close>

record GroupJoinResult =
  url :: string
  success :: bool
  status :: string
  message :: string
  timestamp :: int

record GroupStatus =
  blocked :: bool
  reason :: "string option"

record MembershipStatus =
  isMember :: bool

text \<open>\<open>ClickResult\<close> and \<open>HandleQuestionsResult\<close> are the same interface.\<close>

record ClickResult =
  success :: bool
  error :: "string option"

record GroupManager =
  joinedGroups :: nat
  failedGroups :: nat

definition newGroupManager :: "GroupJoinResult heap \<Rightarrow> GroupManager \<times> GroupJoinResult heap" where
  "newGroupManager hp =
     (let (joined, hp1) = newArray [] hp;
          (failed, hp2) = newArray [] hp1
      in (\<lparr>joinedGroups = joined, failedGroups = failed\<rparr>, hp2))"

definition SCROLL_toElement ::
  "env \<Rightarrow> string \<Rightarrow> event list \<Rightarrow> (thrown \<times> event list) + event list" where
  "SCROLL_toElement e selector h =
     andThen (await e (ScrollIntoView selector) h) (\<lambda>h1.
       Inr (h1 @ [DELAYS_short, Log Info (''Scrolled to element: '' @ selector)]))"

definition MOUSE_humanClick ::
  "env \<Rightarrow> string \<Rightarrow> event list \<Rightarrow> (thrown \<times> event list) + event list" where
  "MOUSE_humanClick e selector h =
     andThen (await e (MoveToElement selector) h) (\<lambda>h1.
     andThen (await e (Click selector) h1) (\<lambda>h2.
       Inr (h2 @ [Log Info (''Human-clicked element: '' @ selector)])))"

text \<open>
  The \<open>catch\<close> block shared by the click and question helpers: the message of the
  error, logged through \<open>ERROR_HANDLER\<close> when it is an \<open>Error\<close>.
\<close>

definition catchResult ::
  "string \<Rightarrow> (thrown \<times> event list) + (ClickResult \<times> event list) \<Rightarrow> ClickResult \<times> event list" where
  "catchResult ctx r =
     (case r of
        Inr res \<Rightarrow> res
      | Inl (t, h) \<Rightarrow>
          (\<lparr>ClickResult.success = False, error = Some (errorMessage t)\<rparr>, handleIfError t ctx h))"

subsection \<open>checkGroupStatus and checkMembershipStatus\<close>

definition blockIndicators :: "(string \<times> string) list" where
  \<open>blockIndicators =
     [(BLOCKS_blocked, ''Group is blocked or private''),
      (BLOCKS_restricted, ''Access restricted''),
      (''div:has-text("This content isn't available")'', ''Group not found or deleted''),
      (''div:has-text("Private group")'', ''Private group - access denied'')]\<close>

text \<open>
  Nothing inside the \<open>try\<close> blocks of the two checks throws, so their \<open>catch\<close>
  branches have no counterpart. The loop returns at the first visible indicator.
\<close>

definition checkGroupStatus :: "env \<Rightarrow> event list \<Rightarrow> GroupStatus \<times> event list" where
  \<open>checkGroupStatus e h =
     (let h1 = h @ [DELAYS_short]
      in case find (\<lambda>(selector, why). isVisible e h1 selector) blockIndicators of
           Some (selector, why) \<Rightarrow>
             (\<lparr>blocked = True, reason = Some why\<rparr>,
              h1 @ [Log Warn (''Group access blocked: '' @ why)])
         | None \<Rightarrow>
             if \<not> isVisible e h1 ''[role="main"]''
             then (\<lparr>blocked = True, reason = Some ''Group page failed to load''\<rparr>, h1)
             else (\<lparr>blocked = False, reason = None\<rparr>, h1))\<close>

definition memberIndicators :: "string list" where
  \<open>memberIndicators =
     [''div[role="button"]:has-text("Write something")'',
      ''[data-testid="group_mall_post_button"]'',
      ''div:has-text("You're a member")'',
      ''div[role="button"]:has-text("Leave Group")'']\<close>

definition checkMembershipStatus :: "env \<Rightarrow> event list \<Rightarrow> MembershipStatus \<times> event list" where
  "checkMembershipStatus e h =
     (let h1 = h @ [DELAYS_short]
      in if list_ex (isVisible e h1) memberIndicators
         then (\<lparr>isMember = True\<rparr>, h1 @ [Log Info ''Already a member of this group''])
         else (\<lparr>isMember = False\<rparr>, h1))"

subsection \<open>clickJoinButton\<close>

definition joinSelectors :: "string list" where
  \<open>joinSelectors =
     getMultipleSelectors GROUPS ''joinButton''
     @ [''div[role="button"]:has-text("Join Group")'',
        ''div[role="button"]:has-text("Join")'',
        ''div[role="button"]:has-text("Request to Join")'',
        ''[aria-label="Join Group"]'',
        ''[aria-label="Join"]'']\<close>

text \<open>
  The loop over the selectors: a selector whose scroll or click throws is skipped
  (\<open>continue\<close>), the first one that is visible and clicked ends the loop.
\<close>

fun tryJoinSelectors :: "env \<Rightarrow> string list \<Rightarrow> event list \<Rightarrow> ClickResult \<times> event list" where
  "tryJoinSelectors e [] h =
     (\<lparr>ClickResult.success = False, error = Some ''Join button not found''\<rparr>, h)"
| "tryJoinSelectors e (selector # rest) h =
     (if isVisible e h selector then
        (case andThen (SCROLL_toElement e selector
                         (h @ [Log Info (''Found join button: '' @ selector)])) (\<lambda>h1.
              andThen (MOUSE_humanClick e selector (h1 @ [DELAYS_short])) (\<lambda>h2.
                Inr (h2 @ [DELAYS_medium]))) of
           Inr h' \<Rightarrow> (\<lparr>ClickResult.success = True, error = None\<rparr>, h')
         | Inl (t, h') \<Rightarrow> tryJoinSelectors e rest h')
      else tryJoinSelectors e rest h)"

definition clickJoinButton :: "env \<Rightarrow> event list \<Rightarrow> ClickResult \<times> event list" where
  "clickJoinButton e h =
     tryJoinSelectors e joinSelectors (h @ [Log Info ''Looking for join button...''])"


subsection \<open>Membership questions\<close>

definition alternativeSubmits :: "string list" where
  \<open>alternativeSubmits =
     [''div[role="button"]:has-text("Submit")'',
      ''div[role="button"]:has-text("Send")'',
      ''div[role="button"]:has-text("Continue")'']\<close>

definition submitQuestions :: "env \<Rightarrow> event list \<Rightarrow> ClickResult \<times> event list" where
  "submitQuestions e h =
     catchResult ''submitQuestions''
       (if isVisible e h GROUPS_submitQuestions then
          andThen (MOUSE_humanClick e GROUPS_submitQuestions h) (\<lambda>h1.
            Inr (\<lparr>ClickResult.success = True, error = None\<rparr>,
                 h1 @ [DELAYS_long, Log Info ''Membership questions submitted'']))
        else
          (case find (isVisible e h) alternativeSubmits of
             Some selector \<Rightarrow>
               andThen (MOUSE_humanClick e selector h) (\<lambda>h1.
                 Inr (\<lparr>ClickResult.success = True, error = None\<rparr>,
                      h1 @ [DELAYS_long,
                            Log Info ''Questions submitted with alternative button'']))
           | None \<Rightarrow>
               Inr (\<lparr>ClickResult.success = False, error = Some ''Submit button not found''\<rparr>,
                    h)))"

definition skipQuestions :: "env \<Rightarrow> event list \<Rightarrow> ClickResult \<times> event list" where
  "skipQuestions e h =
     catchResult ''skipQuestions''
       (if isVisible e h GROUPS_skipQuestions then
          andThen (MOUSE_humanClick e GROUPS_skipQuestions h) (\<lambda>h1.
            Inr (\<lparr>ClickResult.success = True, error = None\<rparr>,
                 h1 @ [DELAYS_medium, Log Info ''Membership questions skipped'']))
        else Inr (submitQuestions e h))"

text \<open>A number in a template string.\<close>

fun showNat :: "nat \<Rightarrow> string" where
  "showNat n =
     (if n < 10 then [''0123456789'' ! n]
      else showNat (n div 10) @ [''0123456789'' ! (n mod 10)])"

declare showNat.simps [simp del]

definition defaultAnswers :: "(nat \<rightharpoonup> string) \<Rightarrow> (nat \<rightharpoonup> string)" where
  "defaultAnswers provided =
     [0 \<mapsto> ''I'm interested in joining this community to learn and share experiences.'',
      1 \<mapsto> ''Web developer looking to connect with like-minded professionals.'',
      2 \<mapsto> ''I will follow all group rules and contribute positively.'']
     ++ provided"

text \<open>\<open>defaultAnswers[i] || `Answer to question ${i + 1}`\<close>: an empty answer is falsy.\<close>

definition answerFor :: "(nat \<rightharpoonup> string) \<Rightarrow> nat \<Rightarrow> string" where
  "answerFor answers i =
     (case answers i of
        None \<Rightarrow> ''Answer to question '' @ showNat (i + 1)
      | Some a \<Rightarrow> if a = [] then ''Answer to question '' @ showNat (i + 1) else a)"

fun answerEach ::
  "env \<Rightarrow> (nat \<rightharpoonup> string) \<Rightarrow> nat list \<Rightarrow> event list \<Rightarrow> (thrown \<times> event list) + event list" where
  "answerEach e answers [] h = Inr h"
| "answerEach e answers (i # rest) h =
     (let answer = answerFor answers i
      in andThen (await e (InputClick i)
                    (h @ [Log Info (''Answering question '' @ showNat (i + 1) @ '': '' @ answer)]))
           (\<lambda>h1.
         andThen (await e (InputFill i answer) (h1 @ [DELAYS_short])) (\<lambda>h2.
           answerEach e answers rest (h2 @ [DELAYS_short]))))"

definition questionInputsSelector :: string where
  \<open>questionInputsSelector = ''textarea, input[type="text"]''\<close>

definition answerQuestions ::
  "env \<Rightarrow> (nat \<rightharpoonup> string) \<Rightarrow> event list \<Rightarrow> ClickResult \<times> event list" where
  "answerQuestions e provided h =
     catchResult ''answerQuestions''
       (andThen (await e (LocatorAll questionInputsSelector) h) (\<lambda>h1.
          let n = locatorCount e h1 questionInputsSelector
          in if n = 0
             then Inr (submitQuestions e
                         (h1 @ [Log Info ''No question inputs found, attempting to submit'']))
             else andThen (answerEach e (defaultAnswers provided) [0..<n] h1) (\<lambda>h2.
                    Inr (submitQuestions e h2))))"

text \<open>
  The helpers that \<open>handleMembershipQuestions\<close> calls catch their own errors, so its
  \<open>catch\<close> branch has no counterpart.
\<close>

definition handleMembershipQuestions ::
  "env \<Rightarrow> bool \<Rightarrow> (nat \<rightharpoonup> string) \<Rightarrow> event list \<Rightarrow> ClickResult \<times> event list" where
  "handleMembershipQuestions e skip provided h =
     (let h1 = h @ [DELAYS_medium]
      in if \<not> isVisible e h1 GROUPS_membershipQuestions
         then (\<lparr>ClickResult.success = True, error = None\<rparr>,
               h1 @ [Log Info ''No membership questions found''])
         else
           let h2 = h1 @ [Log Info ''Membership questions detected'']
           in if skip then skipQuestions e h2 else answerQuestions e provided h2)"

subsection \<open>waitForJoinConfirmation\<close>

definition successIndicators :: "string list" where
  \<open>successIndicators =
     [''div:has-text("Welcome to the group")'',
      ''div:has-text("You joined")'',
      ''div:has-text("Request sent")'',
      ''[data-testid="group_mall_post_button"]'']\<close>

text \<open>
  The polling loop runs while the clock is within \<open>maxWaitTime\<close> of the start; whether
  it ends depends on the clock, so the loop is a partial function and \<open>None\<close> means
  that it never returns. Nothing in it throws.
\<close>

partial_function (option) confirmationLoop ::
  "env \<Rightarrow> int \<Rightarrow> int \<Rightarrow> event list \<Rightarrow> (bool \<times> event list) option" where
  "confirmationLoop e startTime maxWait h =
     (if dateNow e h - startTime < maxWait then
        (if list_ex (isVisible e h) successIndicators then Some (True, h)
         else confirmationLoop e startTime maxWait (h @ [DELAYS_short]))
      else Some (False, h))"

declare confirmationLoop.simps [code]

definition waitForJoinConfirmation ::
  "env \<Rightarrow> int \<Rightarrow> event list \<Rightarrow> (bool \<times> event list) option" where
  "waitForJoinConfirmation e maxWait h = confirmationLoop e (dateNow e h) maxWait h"

subsection \<open>joinGroup\<close>

text \<open>The \<open>||\<close> of an optional text with a default: absent and empty are falsy.\<close>

definition orDefault :: "string option \<Rightarrow> string \<Rightarrow> string" where
  "orDefault opt dflt = (case opt of None \<Rightarrow> dflt | Some s \<Rightarrow> if s = [] then dflt else s)"

text \<open>An option left out takes the default of the destructuring pattern.\<close>

definition withDefault :: "'a option \<Rightarrow> 'a \<Rightarrow> 'a" where
  "withDefault opt dflt = (case opt of None \<Rightarrow> dflt | Some v \<Rightarrow> v)"

text \<open>
  \<open>joinGroup\<close> returns its result, the store in which the result has been pushed on
  one of the manager's two arrays, and the events.
\<close>

definition joinGroup ::
  "env \<Rightarrow> GroupManager \<Rightarrow> string \<Rightarrow> JoinGroupOptions \<Rightarrow> GroupJoinResult heap \<times> event list
     \<Rightarrow> (GroupJoinResult \<times> GroupJoinResult heap \<times> event list) option" where
  "joinGroup e mgr groupUrl options st =
     (let (hp, h) = st;
          skip = withDefault (JoinGroupOptions.skipQuestions options) False;
          answers = withDefault (questionAnswers options) Map.empty;
          maxWait = withDefault (maxWaitTime options) 30000;
          result = \<lparr>url = groupUrl, GroupJoinResult.success = False, status = ''pending'',
                    message = '''', timestamp = dateNow e h\<rparr>;
          failed = (\<lambda>r h'. Some (r, push (failedGroups mgr) r hp, h'));
          joined = (\<lambda>r h'. Some (r, push (joinedGroups mgr) r hp, h'))
      in case await e (Goto groupUrl) (h @ [Log Info (''Attempting to join group: '' @ groupUrl)]) of
           Inl (t, h') \<Rightarrow>
             failed (result\<lparr>message := errorMessage t, status := ''error''\<rparr>)
               (case t of
                  Error msg \<Rightarrow> h' @ [Log Err ''Automation error in joinGroup:'']
                | NonError \<Rightarrow> h')
         | Inr h1 \<Rightarrow>
             let (groupStatus, h2) = checkGroupStatus e (h1 @ [DELAYS_medium])
             in if blocked groupStatus then
                  failed (result\<lparr>status := ''blocked'',
                            message := orDefault (reason groupStatus)
                                         ''Group is blocked or private''\<rparr>) h2
                else
                  let (membershipStatus, h3) = checkMembershipStatus e h2
                  in if isMember membershipStatus then
                       joined (result\<lparr>GroupJoinResult.success := True,
                                 status := ''already_member'',
                                 message := ''Already a member of this group''\<rparr>) h3
                     else
                       let (joinResult, h4) = clickJoinButton e h3
                       in if \<not> ClickResult.success joinResult then
                            failed (result\<lparr>status := ''join_failed'',
                                      message := orDefault (error joinResult)
                                                   ''Join button not found''\<rparr>) h4
                          else
                            let (questionsHandled, h5) =
                                  handleMembershipQuestions e skip answers (h4 @ [DELAYS_medium])
                            in if \<not> ClickResult.success questionsHandled then
                                 failed (result\<lparr>status := ''questions_failed'',
                                           message := orDefault (error questionsHandled)
                                             ''Failed to handle membership questions''\<rparr>) h5
                               else
                                 (case waitForJoinConfirmation e maxWait h5 of
                                    None \<Rightarrow> None
                                  | Some (joinConfirmed, h6) \<Rightarrow>
                                      let r = (if joinConfirmed
                                               then result\<lparr>GroupJoinResult.success := True,
                                                      status := ''joined'',
                                                      message := ''Successfully joined group''\<rparr>
                                               else result\<lparr>status := ''pending_approval'',
                                                      message :=
                                                        ''Join request submitted, awaiting approval'',
                                                      GroupJoinResult.success := True\<rparr>)
                                      in joined r
                                           (h6 @ [Log Info (''Group join result: '' @ status r
                                                    @ '' - '' @ message r)])))"

subsection \<open>Accessors\<close>

definition getJoinedGroups :: "GroupManager \<Rightarrow> GroupJoinResult heap \<Rightarrow> nat \<times> GroupJoinResult heap" where
  "getJoinedGroups mgr hp = newArray (arrays hp (joinedGroups mgr)) hp"

definition getFailedGroups :: "GroupManager \<Rightarrow> GroupJoinResult heap \<Rightarrow> nat \<times> GroupJoinResult heap" where
  "getFailedGroups mgr hp = newArray (arrays hp (failedGroups mgr)) hp"

section \<open>Post history (class PostManager)\<close>

record PostData =
  message :: "string option"
  imagePaths :: "string list option"
  groupUrl :: "string option"
  waitForConfirmation :: "bool option"

record PostResult =
  success :: bool
  message :: string
  timestamp :: int
  postData :: PostData
  error :: "string option"

record PostManager =
  createdPosts :: nat
  failedPosts :: nat

definition getCreatedPosts :: "PostManager \<Rightarrow> PostResult heap \<Rightarrow> nat \<times> PostResult heap" where
  "getCreatedPosts mgr hp = newArray (arrays hp (createdPosts mgr)) hp"

definition getFailedPosts :: "PostManager \<Rightarrow> PostResult heap \<Rightarrow> nat \<times> PostResult heap" where
  "getFailedPosts mgr hp = newArray (arrays hp (failedPosts mgr)) hp"

definition newPostManager :: "PostResult heap \<Rightarrow> PostManager \<times> PostResult heap" where
  "newPostManager hp =
     (let (created, hp1) = newArray [] hp;
          (failed, hp2) = newArray [] hp1
      in (\<lparr>createdPosts = created, failedPosts = failed\<rparr>, hp2))"

section \<open>Task orchestrator (class FacebookAutomation)\<close>

record AutomationStats =
  groupsJoined :: nat
  postsCreated :: nat
  errors :: nat
  interventions :: nat

text \<open>
  The fields of the automation object that the two batch methods read: whether the alert
  system exists, the two managers (absent before \<open>initialize\<close>), and the counters.
  Log lines are kept without their colour codes and pictograms.
\<close>

record FacebookAutomation =
  alertSystem :: bool
  groupManager :: "GroupManager option"
  postManager :: "PostManager option"
  stats :: AutomationStats

text \<open>
  The cooperative wait before an item: while the alert system reports a pending
  intervention, log and sleep. The monitor task decides when the flag clears, so the wait
  is a partial function.
\<close>

partial_function (option) waitForIntervention :: "env \<Rightarrow> event list \<Rightarrow> event list option" where
  "waitForIntervention e h =
     (if interventionRequired e h
      then waitForIntervention e
             (h @ [Log Info ''Waiting for manual intervention to complete...'', DELAYS_medium])
      else Some h)"

declare waitForIntervention.simps [code]

subsection \<open>joinGroups\<close>

text \<open>
  One pass of the loop body after the stop check, for the item at index \<open>i\<close> of \<open>n\<close>.
  \<open>joinGroup\<close> catches what is thrown inside it, so the \<open>catch\<close> of the loop body has
  no counterpart.
\<close>

definition joinGroupsItem ::
  "env \<Rightarrow> GroupManager \<Rightarrow> JoinGroupOptions \<Rightarrow> nat \<Rightarrow> nat \<Rightarrow> string
     \<Rightarrow> AutomationStats \<times> GroupJoinResult heap \<times> event list
     \<Rightarrow> (AutomationStats \<times> GroupJoinResult heap \<times> event list) option" where
  "joinGroupsItem e mgr options n i target st =
     (let (counters, hp, h) = st
      in case waitForIntervention e
                (h @ [Log Info (''Processing group '' @ showNat (i + 1) @ ''/'' @ showNat n
                                  @ '': '' @ target)]) of
           None \<Rightarrow> None
         | Some h1 \<Rightarrow>
             (case joinGroup e mgr target options (hp, h1) of
                None \<Rightarrow> None
              | Some (result, hp', h2) \<Rightarrow>
                  let counters' =
                        (if GroupJoinResult.success result
                         then counters\<lparr>groupsJoined := groupsJoined counters + 1\<rparr>
                         else counters\<lparr>errors := errors counters + 1\<rparr>);
                      h3 = (if GroupJoinResult.success result
                            then h2 @ [Log Info (''Successfully joined group: '' @ status result)]
                            else h2 @ [Log Err (''Failed to join group: ''
                                                  @ GroupJoinResult.message result)]);
                      h4 = (if i + 1 < n then h3 @ [Sleep 3000 8000] else h3)
                  in Some (counters', hp', h4)))"

text \<open>The \<open>for\<close> loop from index \<open>i\<close> on, over the URLs that remain.\<close>

fun joinGroupsLoop ::
  "env \<Rightarrow> GroupManager \<Rightarrow> JoinGroupOptions \<Rightarrow> nat \<Rightarrow> nat \<Rightarrow> string list
     \<Rightarrow> AutomationStats \<times> GroupJoinResult heap \<times> event list
     \<Rightarrow> (AutomationStats \<times> GroupJoinResult heap \<times> event list) option" where
  "joinGroupsLoop e mgr options n i [] st = Some st"
| "joinGroupsLoop e mgr options n i (target # rest) st =
     (let (counters, hp, h) = st
      in if shouldStop e h
         then Some (counters, hp, h @ [Log Info ''Stopping group joining due to user request''])
         else (case joinGroupsItem e mgr options n i target st of
                 None \<Rightarrow> None
               | Some st' \<Rightarrow> joinGroupsLoop e mgr options n (Suc i) rest st'))"

text \<open>
  \<open>joinGroups\<close> throws before its \<open>try\<close> block when the automation is not
  initialised; nothing inside the block throws past the loop body.
\<close>

definition joinGroups ::
  "env \<Rightarrow> FacebookAutomation \<Rightarrow> string list \<Rightarrow> JoinGroupOptions
     \<Rightarrow> GroupJoinResult heap \<times> event list
     \<Rightarrow> (thrown + FacebookAutomation \<times> GroupJoinResult heap \<times> event list) option" where
  "joinGroups e this groupUrls options st =
     (let (hp, h) = st
      in case groupManager this of
           None \<Rightarrow> Some (Inl (Error ''AlertSystem or GroupManager not initialized.''))
         | Some mgr \<Rightarrow>
             if \<not> alertSystem this
             then Some (Inl (Error ''AlertSystem or GroupManager not initialized.''))
             else
               (case joinGroupsLoop e mgr options (length groupUrls) 0 groupUrls
                       (stats this, hp,
                        h @ [Log Info (''Starting to join '' @ showNat (length groupUrls)
                                         @ '' groups'')]) of
                  None \<Rightarrow> None
                | Some (counters, hp', h') \<Rightarrow>
                    Some (Inr (this\<lparr>stats := counters\<rparr>, hp',
                               h' @ [Log Info (''Group joining completed. Joined: ''
                                                 @ showNat (groupsJoined counters))]))))"

text \<open>
  The items of a batch run to completion one after the other, the stop flag not being
  looked at: the state that the loop is in when these items have completed.
\<close>

fun joinGroupsItems ::
  "env \<Rightarrow> GroupManager \<Rightarrow> JoinGroupOptions \<Rightarrow> nat \<Rightarrow> nat \<Rightarrow> string list
     \<Rightarrow> AutomationStats \<times> GroupJoinResult heap \<times> event list
     \<Rightarrow> (AutomationStats \<times> GroupJoinResult heap \<times> event list) option" where
  "joinGroupsItems e mgr options n i [] st = Some st"
| "joinGroupsItems e mgr options n i (target # rest) st =
     (case joinGroupsItem e mgr options n i target st of
        None \<Rightarrow> None
      | Some st' \<Rightarrow> joinGroupsItems e mgr options n (Suc i) rest st')"

text \<open>The number of results that the manager holds in its two arrays.\<close>

definition resultCount :: "GroupManager \<Rightarrow> GroupJoinResult heap \<Rightarrow> nat" where
  "resultCount mgr hp =
     length (arrays hp (joinedGroups mgr)) + length (arrays hp (failedGroups mgr))"

subsection \<open>createPosts\<close>

text \<open>
  The loop of \<open>createPosts\<close> calls \<open>postManager.createPost\<close> once per item. The loop
  does not depend on how a post is typed, illustrated and submitted, so \<open>createPost\<close> is
  an argument here: any operation on the store and the events that returns a result or
  throws, or never returns.
\<close>

type_synonym createPostOp =
  "PostData \<Rightarrow> PostResult heap \<times> event list
     \<Rightarrow> ((thrown + PostResult) \<times> PostResult heap \<times> event list) option"

definition createPostsItem ::
  "env \<Rightarrow> createPostOp \<Rightarrow> PostData \<Rightarrow> nat \<Rightarrow> nat \<Rightarrow> string
     \<Rightarrow> AutomationStats \<times> PostResult heap \<times> event list
     \<Rightarrow> (AutomationStats \<times> PostResult heap \<times> event list) option" where
  "createPostsItem e createPost postTemplate n i target st =
     (let (counters, hp, h) = st
      in case waitForIntervention e
                (h @ [Log Info (''Creating post '' @ showNat (i + 1) @ ''/'' @ showNat n
                                  @ '' in: '' @ target)]) of
           None \<Rightarrow> None
         | Some h1 \<Rightarrow>
             (case createPost (postTemplate\<lparr>groupUrl := Some target\<rparr>) (hp, h1) of
                None \<Rightarrow> None
              | Some (Inl t, hp', h2) \<Rightarrow>
                  Some (counters\<lparr>errors := errors counters + 1\<rparr>, hp',
                        h2 @ [Log Err ''Automation error in createPost:''])
              | Some (Inr result, hp', h2) \<Rightarrow>
                  let counters' =
                        (if PostResult.success result
                         then counters\<lparr>postsCreated := postsCreated counters + 1\<rparr>
                         else counters\<lparr>errors := errors counters + 1\<rparr>);
                      h3 = (if PostResult.success result
                            then h2 @ [Log Info ''Post created successfully'']
                            else h2 @ [Log Err (''Failed to create post: ''
                                         @ (case PostResult.error result of
                                              None \<Rightarrow> ''null''
                                            | Some msg \<Rightarrow> msg))]);
                      h4 = (if i + 1 < n then h3 @ [Sleep 5000 12000] else h3)
                  in Some (counters', hp', h4)))"

fun createPostsLoop ::
  "env \<Rightarrow> createPostOp \<Rightarrow> PostData \<Rightarrow> nat \<Rightarrow> nat \<Rightarrow> string list
     \<Rightarrow> AutomationStats \<times> PostResult heap \<times> event list
     \<Rightarrow> (AutomationStats \<times> PostResult heap \<times> event list) option" where
  "createPostsLoop e createPost postTemplate n i [] st = Some st"
| "createPostsLoop e createPost postTemplate n i (target # rest) st =
     (let (counters, hp, h) = st
      in if shouldStop e h
         then Some (counters, hp, h @ [Log Info ''Stopping post creation due to user request''])
         else (case createPostsItem e createPost postTemplate n i target st of
                 None \<Rightarrow> None
               | Some st' \<Rightarrow> createPostsLoop e createPost postTemplate n (Suc i) rest st'))"

definition createPosts ::
  "env \<Rightarrow> createPostOp \<Rightarrow> FacebookAutomation \<Rightarrow> string list \<Rightarrow> PostData
     \<Rightarrow> PostResult heap \<times> event list
     \<Rightarrow> (thrown + FacebookAutomation \<times> PostResult heap \<times> event list) option" where
  "createPosts e createPost this groupUrls postTemplate st =
     (let (hp, h) = st
      in case postManager this of
           None \<Rightarrow> Some (Inl (Error ''AlertSystem or PostManager not initialized.''))
         | Some mgr \<Rightarrow>
             if \<not> alertSystem this
             then Some (Inl (Error ''AlertSystem or PostManager not initialized.''))
             else
               (case createPostsLoop e createPost postTemplate (length groupUrls) 0 groupUrls
                       (stats this, hp,
                        h @ [Log Info (''Starting to create posts in ''
                                         @ showNat (length groupUrls) @ '' groups'')]) of
                  None \<Rightarrow> None
                | Some (counters, hp', h') \<Rightarrow>
                    Some (Inr (this\<lparr>stats := counters\<rparr>, hp',
                               h' @ [Log Info (''Post creation completed. Created: ''
                                                 @ showNat (postsCreated counters))]))))"

fun createPostsItems ::
  "env \<Rightarrow> createPostOp \<Rightarrow> PostData \<Rightarrow> nat \<Rightarrow> nat \<Rightarrow> string list
     \<Rightarrow> AutomationStats \<times> PostResult heap \<times> event list
     \<Rightarrow> (AutomationStats \<times> PostResult heap \<times> event list) option" where
  "createPostsItems e createPost postTemplate n i [] st = Some st"
| "createPostsItems e createPost postTemplate n i (target # rest) st =
     (case createPostsItem e createPost postTemplate n i target st of
        None \<Rightarrow> None
      | Some st' \<Rightarrow> createPostsItems e createPost postTemplate n (Suc i) rest st')"

chapter \<open>Examples\<close>

section \<open>Environments and objects\<close>

text \<open>
  A page on which nothing is visible and no call fails, with a clock that advances by
  a second per event; the examples below change single answers of it.
\<close>

definition emptyHeap :: "'a heap" where
  "emptyHeap = \<lparr>arrays = (\<lambda>a. []), nextFree = 0\<rparr>"

definition exampleSession :: SessionData where
  "exampleSession =
     \<lparr>cookies = [''c_user=1''], localStorage = [(''k'', ''v'')], sessionStorage = [],
      SessionData.url = ''https://www.facebook.com/'', SessionData.timestamp = ''t0'',
      userAgent = ''Mozilla/5.0''\<rparr>"

definition quietEnv :: env where
  "quietEnv =
     \<lparr>isVisible = (\<lambda>h selector. False),
      rejects = (\<lambda>h ev. None),
      dateNow = (\<lambda>h. 1000 * int (length h)),
      pageUrl = (\<lambda>h. ''about:blank''),
      locatorCount = (\<lambda>h selector. 0),
      pathExists = (\<lambda>h file. True),
      readJson = (\<lambda>h file. Inr exampleSession),
      dateParse = (\<lambda>text. Some 0),
      shouldStop = (\<lambda>h. False),
      interventionRequired = (\<lambda>h. False)\<rparr>"

definition staleEnv :: env where
  "staleEnv = quietEnv\<lparr>dateNow := (\<lambda>h. 86400001 + 1000 * int (length h))\<rparr>"

definition loggedInEnv :: env where
  \<open>loggedInEnv = quietEnv\<lparr>isVisible := (\<lambda>h selector. selector = ''[role="banner"]'')\<rparr>\<close>

definition blockedEnv :: env where
  "blockedEnv = quietEnv\<lparr>isVisible := (\<lambda>h selector. selector = BLOCKS_restricted)\<rparr>"


definition pendingEnv :: env where
  \<open>pendingEnv =
     quietEnv\<lparr>isVisible :=
       (\<lambda>h selector. selector = ''[role="main"]'' \<or> selector = GROUPS_joinButtonAlt)\<rparr>\<close>

definition exampleSessionManager :: SessionManager where
  "exampleSessionManager = \<lparr>sessionFile = ''fb-session.json'', session = None\<rparr>"

definition exampleManager :: GroupManager where
  "exampleManager = \<lparr>joinedGroups = 0, failedGroups = 1\<rparr>"

definition exampleHeap :: "GroupJoinResult heap" where
  "exampleHeap = \<lparr>arrays = (\<lambda>a. []), nextFree = 2\<rparr>"

definition exampleOptions :: JoinGroupOptions where
  "exampleOptions =
     \<lparr>JoinGroupOptions.skipQuestions = None, questionAnswers = None, maxWaitTime = Some 2000\<rparr>"

definition exampleGroup :: string where
  "exampleGroup = ''https://www.facebook.com/groups/1''"

section \<open>A batch that is stopped\<close>

fun isGoto :: "event \<Rightarrow> bool" where
  "isGoto (Goto target) = True"
| "isGoto ev = False"

text \<open>
  A page that shows the \<open>restricted\<close> notice for every group, and a stop request that
  arrives once two groups have been visited.
\<close>

definition stopAfterTwoEnv :: env where
  "stopAfterTwoEnv = blockedEnv\<lparr>shouldStop := (\<lambda>h. 2 \<le> length (filter isGoto h))\<rparr>"

definition fiveGroups :: "string list" where
  "fiveGroups = [''g1'', ''g2'', ''g3'', ''g4'', ''g5'']"

definition zeroStats :: AutomationStats where
  "zeroStats = \<lparr>groupsJoined = 0, postsCreated = 0, errors = 0, interventions = 0\<rparr>"

definition examplePost :: PostData where
  "examplePost =
     \<lparr>PostData.message = Some ''Hello'', imagePaths = None, groupUrl = None,
      waitForConfirmation = Some False\<rparr>"

text \<open>A \<open>createPost\<close> that visits the group and records a submitted post.\<close>

definition exampleCreatePost :: createPostOp where
  "exampleCreatePost post st =
     (let (hp, h) = st;
          result = \<lparr>PostResult.success = True,
                    PostResult.message = ''Post submitted successfully'',
                    PostResult.timestamp = 0, postData = post, PostResult.error = None\<rparr>
      in Some (Inr result, push 0 result hp,
               h @ [Goto (case groupUrl post of None \<Rightarrow> [] | Some target \<Rightarrow> target)]))"

section \<open>Results, managers and candidates\<close>

definition exampleResult :: GroupJoinResult where
  "exampleResult =
     \<lparr>GroupJoinResult.url = exampleGroup, GroupJoinResult.success = True,
      status = ''joined'', GroupJoinResult.message = ''Successfully joined group'',
      GroupJoinResult.timestamp = 0\<rparr>"

definition joinedOnceHeap :: "GroupJoinResult heap" where
  "joinedOnceHeap = push (joinedGroups exampleManager) exampleResult exampleHeap"

definition examplePostManager :: PostManager where
  "examplePostManager = \<lparr>createdPosts = 0, failedPosts = 1\<rparr>"

definition examplePostHeap :: "PostResult heap" where
  "examplePostHeap = \<lparr>arrays = (\<lambda>a. []), nextFree = 2\<rparr>"

definition exampleAutomation :: FacebookAutomation where
  "exampleAutomation =
     \<lparr>alertSystem = True, groupManager = Some exampleManager,
      postManager = Some examplePostManager, stats = zeroStats\<rparr>"

text \<open>Three candidates, the third with the URL of the first and other metadata.\<close>

definition firstCandidate :: GroupInfo where
  "firstCandidate =
     \<lparr>GroupInfo.url = ''https://www.facebook.com/groups/1'', GroupInfo.name = ''A'',
      memberCount = 5, isJoined = False, relevanceScore = Some 40, searchKeyword = None,
      category = None, description = None\<rparr>"

definition otherCandidate :: GroupInfo where
  "otherCandidate =
     \<lparr>GroupInfo.url = ''https://www.facebook.com/groups/2'', GroupInfo.name = ''B'',
      memberCount = 6, isJoined = False, relevanceScore = None, searchKeyword = None,
      category = None, description = None\<rparr>"

definition laterDuplicate :: GroupInfo where
  "laterDuplicate =
     \<lparr>GroupInfo.url = ''https://www.facebook.com/groups/1'', GroupInfo.name = ''C'',
      memberCount = 7, isJoined = True, relevanceScore = Some 90,
      searchKeyword = Some ''web'', category = None, description = None\<rparr>"

chapter \<open>Properties\<close>

section \<open>Member counts\<close>

text \<open>
  C1. The claim: \<open>parseMemberCount\<close> scales the number in the text by its suffix, so
  \<open>"1.2K members"\<close> gives 1200. The code tests the lower-cased text for the letter
  \<open>m\<close> after testing it for \<open>k\<close>, and the word \<open>members\<close> holds an \<open>m\<close>: every
  text that ends in \<open>members\<close> is scaled by a million, and \<open>"1.2K members"\<close> gives
  1200000.
\<close>

theorem parseMemberCount_K_members:
  "parseMemberCount ''1.2K members'' = 1200000"
  by (simp add: parseMemberCount_def toLowerCase_def toLowerChar_def parseFloat_def
      isDigit_def digitVal_def digitsValue_def)

lemma parseMemberCount_M_members:
  "parseMemberCount ''3M members'' = 3000000"
  by (simp add: parseMemberCount_def toLowerCase_def toLowerChar_def parseFloat_def
      isDigit_def digitVal_def digitsValue_def)

lemma parseMemberCount_no_digits:
  "parseMemberCount ''members'' = 0"
  by (simp add: parseMemberCount_def toLowerCase_def toLowerChar_def parseFloat_def
      isDigit_def digitVal_def digitsValue_def)

lemma parseMemberCount_plain_members:
  "parseMemberCount ''523 members'' = 523000000"
  by (simp add: parseMemberCount_def toLowerCase_def toLowerChar_def parseFloat_def
      isDigit_def digitVal_def digitsValue_def)

section \<open>Relevance score\<close>

lemma str_includes_iff: "str_includes s w \<longleftrightarrow> (\<exists>p q. s = p @ w @ q)"
proof -
  have sw: "starts_with s w \<longleftrightarrow> (\<exists>q. s = w @ q)" for s w
    by (induction s w rule: starts_with.induct) auto
  show ?thesis
  proof (induction s)
    case Nil
    show ?case by simp
  next
    case (Cons c cs)
    show ?case
    proof
      assume "str_includes (c # cs) w"
      then consider "starts_with (c # cs) w" | "str_includes cs w" by auto
      then show "\<exists>p q. c # cs = p @ w @ q"
      proof cases
        case 1
        then obtain q where "c # cs = w @ q" using sw by blast
        then have "c # cs = [] @ w @ q" by simp
        then show ?thesis by blast
      next
        case 2
        then obtain p q where "cs = p @ w @ q" using Cons.IH by blast
        then have "c # cs = (c # p) @ w @ q" by simp
        then show ?thesis by blast
      qed
    next
      assume "\<exists>p q. c # cs = p @ w @ q"
      then obtain p q where pq: "c # cs = p @ w @ q" by blast
      show "str_includes (c # cs) w"
      proof (cases p)
        case Nil
        then have "starts_with (c # cs) w" using pq sw by auto
        then show ?thesis by simp
      next
        case (Cons a p')
        then have "cs = p' @ w @ q" using pq by simp
        then have "str_includes cs w" using Cons.IH by blast
        then show ?thesis by simp
      qed
    qed
  qed
qed

lemma fold_count_words:
  "fold (\<lambda>word score. if P word then score + 10 else score) ws (s :: int)
     = s + 10 * int (length (filter P ws))"
  by (induction ws arbitrary: s) auto

text \<open>
  C2. For every group and keyword the score computed by \<open>calculateRelevanceScore\<close> is
  the one the specification words: 50 when the lower-cased name contains the (lower-cased)
  keyword, 10 for each piece of the keyword between spaces that the name contains, 20 for
  more than 50000 members or else 10 for more than 10000, capped at 100. The name
  \<open>Web Development Group\<close> with the keyword \<open>web development\<close> and 60000 members
  scores 90.
\<close>

theorem calculateRelevanceScore_spec:
  "calculateRelevanceScore grp keyword = relevance_spec grp keyword
   \<and> calculateRelevanceScore
        \<lparr>GroupInfo.url = ''https://www.facebook.com/groups/1'',
         GroupInfo.name = ''Web Development Group'', memberCount = 60000,
         isJoined = False, relevanceScore = None, searchKeyword = None,
         category = None, description = None\<rparr> ''web development'' = 90"
proof
  show "calculateRelevanceScore grp keyword = relevance_spec grp keyword"
    by (simp add: calculateRelevanceScore_def relevance_spec_def Let_def fold_count_words
        min.commute)
  show "calculateRelevanceScore
        \<lparr>GroupInfo.url = ''https://www.facebook.com/groups/1'',
         GroupInfo.name = ''Web Development Group'', memberCount = 60000,
         isJoined = False, relevanceScore = None, searchKeyword = None,
         category = None, description = None\<rparr> ''web development'' = 90"
    by (simp add: calculateRelevanceScore_def toLowerCase_def toLowerChar_def)
qed

theorem calculateRelevanceScore_spec_witness:
  "calculateRelevanceScore
     \<lparr>GroupInfo.url = ''u'', GroupInfo.name = ''React Developers'', memberCount = 12000,
      isJoined = False, relevanceScore = None, searchKeyword = None,
      category = None, description = None\<rparr> ''React  jobs'' = 30"
  using calculateRelevanceScore_spec
    [of "\<lparr>GroupInfo.url = ''u'', GroupInfo.name = ''React Developers'', memberCount = 12000,
          isJoined = False, relevanceScore = None, searchKeyword = None,
          category = None, description = None\<rparr>" "''React  jobs''"]
  by (simp add: relevance_spec_def toLowerCase_def toLowerChar_def)

section \<open>Deduplication\<close>

lemma filter_upt_Suc:
  "filter P [0..<Suc n] = (if P 0 then [0] else []) @ map Suc (filter (\<lambda>i. P (Suc i)) [0..<n])"
proof -
  have "[0..<Suc n] = 0 # map Suc [0..<n]"
    by (simp add: upt_conv_Cons map_Suc_upt del: upt_Suc)
  then show ?thesis
    by (simp add: filter_map comp_def del: upt_Suc)
qed

lemma all_less_Suc: "(\<forall>j<Suc i. P j) = (P 0 \<and> (\<forall>j<i. P (Suc j)))"
  by (metis less_Suc_eq_0_disj)

lemma filterSeen_index:
  "filterSeen seen gs =
     map (\<lambda>i. gs ! i)
       (filter (\<lambda>i. GroupInfo.url (gs ! i) \<notin> seen
                    \<and> (\<forall>j<i. GroupInfo.url (gs ! j) \<noteq> GroupInfo.url (gs ! i)))
          [0..<length gs])"
proof (induction gs arbitrary: seen)
  case Nil
  show ?case by simp
next
  case (Cons g gs)
  let ?u = "\<lambda>i. GroupInfo.url (gs ! i)"
  let ?first = "\<lambda>i. \<forall>j<i. ?u j \<noteq> ?u i"
  show ?case
  proof (cases "GroupInfo.url g \<in> seen")
    case True
    have same: "filter (\<lambda>i. ?u i \<notin> seen \<and> GroupInfo.url g \<noteq> ?u i \<and> ?first i) [0..<length gs]
        = filter (\<lambda>i. ?u i \<notin> seen \<and> ?first i) [0..<length gs]"
      by (rule filter_cong) (use True in auto)
    show ?thesis
      using True Cons.IH [of seen]
      by (simp add: filter_upt_Suc all_less_Suc comp_def same del: upt_Suc)
  next
    case False
    have same: "filter (\<lambda>i. ?u i \<notin> seen \<and> GroupInfo.url g \<noteq> ?u i \<and> ?first i) [0..<length gs]
        = filter (\<lambda>i. ?u i \<notin> insert (GroupInfo.url g) seen \<and> ?first i) [0..<length gs]"
      by (rule filter_cong) auto
    show ?thesis
      using False Cons.IH [of "insert (GroupInfo.url g) seen"]
      by (simp add: filter_upt_Suc all_less_Suc comp_def same del: upt_Suc)
  qed
qed

text \<open>
  C3. \<open>removeDuplicateGroups\<close> returns, in input order, exactly the candidates at the
  positions where no earlier candidate has the same URL: the first occurrence of each URL
  is kept, every later candidate with that URL is dropped whatever its other fields are.
\<close>

theorem removeDuplicateGroups_first_occurrences:
  "removeDuplicateGroups groups =
     map (\<lambda>i. groups ! i)
       (filter (\<lambda>i. \<forall>j<i. GroupInfo.url (groups ! j) \<noteq> GroupInfo.url (groups ! i))
          [0..<length groups])"
  by (simp add: removeDuplicateGroups_def filterSeen_index)

theorem removeDuplicateGroups_first_occurrences_witness:
  "removeDuplicateGroups [firstCandidate, otherCandidate, laterDuplicate]
   = [firstCandidate, otherCandidate]"
  using removeDuplicateGroups_first_occurrences
          [of "[firstCandidate, otherCandidate, laterDuplicate]"]
  by (simp add: firstCandidate_def otherCandidate_def laterDuplicate_def upt_conv_Cons
      all_less_Suc del: upt_Suc)

section \<open>Selection parsing\<close>

lemma set_setAdd: "set (setAdd i xs) = insert i (set xs)"
  by (auto simp: setAdd_def)

lemma distinct_setAdd: "distinct xs \<Longrightarrow> distinct (setAdd i xs)"
  by (auto simp: setAdd_def)

lemma set_fold_setAdd: "set (fold setAdd is xs) = set is \<union> set xs"
  by (induction "is" arbitrary: xs) (auto simp: set_setAdd)

lemma distinct_fold_setAdd: "distinct xs \<Longrightarrow> distinct (fold setAdd is xs)"
  by (induction "is" arbitrary: xs) (auto simp: distinct_setAdd)

lemma set_addPart: "set (addPart m part xs) = set xs \<union> partIndices m part"
  by (auto simp: addPart_def partIndices_def set_setAdd set_fold_setAdd
      split: list.splits option.splits)

lemma distinct_addPart: "distinct xs \<Longrightarrow> distinct (addPart m part xs)"
  by (auto simp: addPart_def distinct_setAdd distinct_fold_setAdd
      split: list.splits option.splits)

lemma addPart_unchanged: "partIndices m part = {} \<Longrightarrow> addPart m part xs = xs"
  by (auto simp: addPart_def partIndices_def split: list.splits option.splits if_splits)

lemma partIndices_range: "i \<in> partIndices m part \<Longrightarrow> 1 \<le> i \<and> i \<le> m"
  by (auto simp: partIndices_def split: list.splits option.splits if_splits)

lemma set_fold_addPart:
  "set (fold (addPart m) parts xs) = set xs \<union> (\<Union>part\<in>set parts. partIndices m part)"
  by (induction parts arbitrary: xs) (auto simp: set_addPart)

lemma distinct_fold_addPart: "distinct xs \<Longrightarrow> distinct (fold (addPart m) parts xs)"
  by (induction parts arbitrary: xs) (auto simp: distinct_addPart)

lemma parseInt_Nil: "parseInt [] = None"
  by (simp add: parseInt_def)

lemma trim_Nil: "trim [] = []"
  by (simp add: trim_def)

lemma addPart_leading_minus: "addPart m (CHR ''-'' # rest) xs = xs"
proof -
  have "str_split CHR ''-'' (CHR ''-'' # rest) = [] # str_split CHR ''-'' rest"
    by simp
  then show ?thesis
    by (simp add: addPart_def parseInt_Nil trim_Nil del: str_split.simps)
qed

text \<open>
  C10, as the claim states it, fails for a malformed part that begins with an integer:
  \<open>2abc\<close> is neither a number nor a range, and \<open>parseInt\<close> reads its leading \<open>2\<close>,
  so the part selects index 2.
\<close>

theorem parseSelection_malformed_counterexample:
  "\<not> wellFormedPart ''2abc'' \<and> parseSelection ''2abc'' 5 = [2]"
  by (simp add: wellFormedPart_def isNumberText_def isDigit_def parseSelection_def
      addPart_def parseInt_def trim_def isWhiteSpace_def digitOf_def digitsValue_def
      setAdd_def)

text \<open>
  C10, amended. For every input and every \<open>maxIndex\<close>, \<open>parseSelection\<close> returns a
  strictly ascending (hence duplicate-free) list of integers between 1 and \<open>maxIndex\<close>,
  and it always returns. The list holds exactly what the comma-separated parts select,
  each part being read by the integers that lead its text (\<open>partIndices\<close>): a part, or a
  range bound, with no leading integer, a zero, a number above \<open>maxIndex\<close>, a range whose
  start is below 1, whose end is above \<open>maxIndex\<close> or below its start selects nothing and
  leaves the indices as they are, and so does every part that begins with a minus sign.
\<close>

theorem parseSelection_ascending_in_range:
  "sorted_wrt (<) (parseSelection input maxIndex)
   \<and> (\<forall>i\<in>set (parseSelection input maxIndex). 1 \<le> i \<and> i \<le> maxIndex)
   \<and> set (parseSelection input maxIndex)
       = (\<Union>part\<in>set (map trim (str_split CHR '','' input)). partIndices maxIndex part)
   \<and> (partIndices maxIndex part = {} \<longrightarrow> addPart maxIndex part indices = indices)
   \<and> addPart maxIndex (CHR ''-'' # rest) indices = indices"
  by (auto simp: parseSelection_def strict_sorted_iff set_fold_addPart distinct_fold_addPart
      addPart_unchanged addPart_leading_minus dest: partIndices_range)

theorem parseSelection_ascending_in_range_witness:
  "parseSelection ''3-5, 1, 9, 0, -2, x, 0-3, 4-9, 3'' 6 = [1, 3, 4, 5]
   \<and> partIndices 6 ''0-3'' = {}
   \<and> addPart 6 ''0-3'' [3, 4, 5, 1] = [3, 4, 5, 1]"
  using parseSelection_ascending_in_range
    [of "''3-5, 1, 9, 0, -2, x, 0-3, 4-9, 3''" 6 "''0-3''" "[3, 4, 5, 1]" "''2''"]
  by (simp add: parseSelection_def addPart_def partIndices_def parseInt_def trim_def
      isWhiteSpace_def digitOf_def digitsValue_def setAdd_def upto.simps)

section \<open>Session freshness\<close>

lemma andThen_Inr: "andThen r k = Inr x \<longleftrightarrow> (\<exists>h. r = Inr h \<and> k h = Inr x)"
  by (cases r) (auto simp: andThen_def)

lemma loadSession_absent:
  "\<not> pathExists e h (sessionFile mgr)
   \<Longrightarrow> loadSession e mgr h = (False, mgr, h @ [Log Info ''No existing session file found''])"
  by (simp add: loadSession_def loadSession_try_def)

lemma loadSession_stale:
  assumes "pathExists e h (sessionFile mgr)"
    and "readJson e (h @ [Log Info ''Loading Facebook session...'']) (sessionFile mgr) = Inr sd"
    and "dateParse e (SessionData.timestamp sd) = Some t"
    and "dateNow e (h @ [Log Info ''Loading Facebook session...'']) - t > 24 * 60 * 60 * 1000"
  shows "loadSession e mgr h =
           (False, mgr, h @ [Log Info ''Loading Facebook session...'',
                             Log Warn ''Session is too old, will require fresh login''])"
  using assms by (simp add: loadSession_def loadSession_try_def maxAge_def)

lemma loadSession_true:
  assumes "fst (loadSession e mgr h)"
  shows "\<exists>hv sd. fst (verifyLogin e hv)
           \<and> loadSession e mgr h
               = (True, mgr\<lparr>session := Some sd\<rparr>,
                  snd (verifyLogin e hv) @ [Log Info ''Session restored successfully''])"
proof -
  let ?h1 = "h @ [Log Info ''Loading Facebook session...'']"
  obtain m' h' where tr: "loadSession_try e mgr h = Inr (True, m', h')"
    and res: "loadSession e mgr h = (True, m', h')"
    using assms by (auto simp: loadSession_def split: sum.splits prod.splits)
  have ex: "pathExists e h (sessionFile mgr)"
    using tr by (auto simp: loadSession_try_def split: if_splits)
  obtain sd where rd: "readJson e ?h1 (sessionFile mgr) = Inr sd"
    using tr ex by (cases "readJson e ?h1 (sessionFile mgr)") (auto simp: loadSession_try_def)
  have fresh: "\<not> (case dateParse e (SessionData.timestamp sd) of
                     None \<Rightarrow> False
                   | Some t \<Rightarrow> dateNow e ?h1 - t > maxAge)"
    using tr ex rd by (simp add: loadSession_try_def Let_def split: if_split_asm)
  have "\<exists>h6. (let (isLoggedIn, h7) = verifyLogin e (h6 @ [DELAYS_long])
              in if isLoggedIn
                 then Inr (True, mgr\<lparr>session := Some sd\<rparr>,
                        h7 @ [Log Info ''Session restored successfully''])
                 else Inr (False, mgr,
                        h7 @ [Log Warn ''Session restoration failed - login required'']))
            = (Inr (True, m', h')
                :: (thrown \<times> event list) + (bool \<times> SessionManager \<times> event list))"
    using tr ex rd fresh
    unfolding loadSession_try_def Let_def
    by (simp add: andThen_Inr del: split_paired_Ex) blast
  then obtain h6 where
    v: "(let (isLoggedIn, h7) = verifyLogin e (h6 @ [DELAYS_long])
         in if isLoggedIn
            then Inr (True, mgr\<lparr>session := Some sd\<rparr>,
                   h7 @ [Log Info ''Session restored successfully''])
            else Inr (False, mgr,
                   h7 @ [Log Warn ''Session restoration failed - login required'']))
        = (Inr (True, m', h')
            :: (thrown \<times> event list) + (bool \<times> SessionManager \<times> event list))"
    by blast
  obtain b h7 where vl: "verifyLogin e (h6 @ [DELAYS_long]) = (b, h7)"
    by (cases "verifyLogin e (h6 @ [DELAYS_long])")
  have "b" "m' = mgr\<lparr>session := Some sd\<rparr>"
    "h' = h7 @ [Log Info ''Session restored successfully'']"
    using v vl by (auto split: if_splits)
  then show ?thesis
    using res vl by (intro exI [of _ "h6 @ [DELAYS_long]"] exI [of _ sd]) simp
qed

text \<open>
  C4. When the session file holds a record whose timestamp lies more than 24 hours before
  the clock reading, \<open>loadSession\<close> returns false, leaves the manager as it was and does
  nothing but log: no cookie or storage entry is restored. It returns false when the file
  is absent. When it returns true, \<open>verifyLogin\<close> has answered true, and the events end
  with that verification.
\<close>

theorem loadSession_rejects_stale_session:
  "(pathExists e h (sessionFile mgr)
    \<and> readJson e (h @ [Log Info ''Loading Facebook session...'']) (sessionFile mgr) = Inr sd
    \<and> dateParse e (SessionData.timestamp sd) = Some t
    \<and> dateNow e (h @ [Log Info ''Loading Facebook session...'']) - t > 24 * 60 * 60 * 1000
    \<longrightarrow> loadSession e mgr h
          = (False, mgr, h @ [Log Info ''Loading Facebook session...'',
                              Log Warn ''Session is too old, will require fresh login''])
        \<and> \<not> list_ex restores (drop (length h) (snd (snd (loadSession e mgr h)))))
   \<and> (\<not> pathExists e h (sessionFile mgr)
        \<longrightarrow> loadSession e mgr h
              = (False, mgr, h @ [Log Info ''No existing session file found'']))
   \<and> (fst (loadSession e mgr h)
        \<longrightarrow> (\<exists>hv sd. fst (verifyLogin e hv)
               \<and> loadSession e mgr h
                   = (True, mgr\<lparr>session := Some sd\<rparr>,
                      snd (verifyLogin e hv) @ [Log Info ''Session restored successfully''])))"
proof (intro conjI impI)
  assume a: "pathExists e h (sessionFile mgr)
    \<and> readJson e (h @ [Log Info ''Loading Facebook session...'']) (sessionFile mgr) = Inr sd
    \<and> dateParse e (SessionData.timestamp sd) = Some t
    \<and> dateNow e (h @ [Log Info ''Loading Facebook session...'']) - t > 24 * 60 * 60 * 1000"
  then show stale: "loadSession e mgr h
          = (False, mgr, h @ [Log Info ''Loading Facebook session...'',
                              Log Warn ''Session is too old, will require fresh login''])"
    using loadSession_stale [of e h mgr sd t] by blast
  show "\<not> list_ex restores (drop (length h) (snd (snd (loadSession e mgr h))))"
    by (simp add: stale)
next
  assume "\<not> pathExists e h (sessionFile mgr)"
  then show "loadSession e mgr h = (False, mgr, h @ [Log Info ''No existing session file found''])"
    by (rule loadSession_absent)
next
  assume "fst (loadSession e mgr h)"
  then show "\<exists>hv sd. fst (verifyLogin e hv)
               \<and> loadSession e mgr h
                   = (True, mgr\<lparr>session := Some sd\<rparr>,
                      snd (verifyLogin e hv) @ [Log Info ''Session restored successfully''])"
    by (rule loadSession_true)
qed

theorem loadSession_rejects_stale_session_witness:
  "loadSession staleEnv exampleSessionManager []
     = (False, exampleSessionManager,
        [Log Info ''Loading Facebook session...'',
         Log Warn ''Session is too old, will require fresh login''])
   \<and> fst (loadSession loggedInEnv exampleSessionManager [])
   \<and> (\<exists>hv. fst (verifyLogin loggedInEnv hv)
         \<and> loadSession loggedInEnv exampleSessionManager []
             = (True, exampleSessionManager\<lparr>session := Some exampleSession\<rparr>,
                snd (verifyLogin loggedInEnv hv) @ [Log Info ''Session restored successfully'']))"
proof -
  have stale: "pathExists staleEnv [] (sessionFile exampleSessionManager)
    \<and> readJson staleEnv ([] @ [Log Info ''Loading Facebook session...''])
        (sessionFile exampleSessionManager) = Inr exampleSession
    \<and> dateParse staleEnv (SessionData.timestamp exampleSession) = Some 0
    \<and> dateNow staleEnv ([] @ [Log Info ''Loading Facebook session...'']) - 0
        > 24 * 60 * 60 * 1000"
    by (simp add: staleEnv_def quietEnv_def)
  have ok: "fst (loadSession loggedInEnv exampleSessionManager [])"
    by (simp add: loadSession_def loadSession_try_def loggedInEnv_def quietEnv_def
        exampleSessionManager_def exampleSession_def maxAge_def andThen_def await_def
        verifyLogin_def DELAYS_short_def DELAYS_medium_def DELAYS_long_def
        LOGIN_loginForm_def loggedInIndicators_def)
  have sess: "session (fst (snd (loadSession loggedInEnv exampleSessionManager [])))
              = Some exampleSession"
    by (simp add: loadSession_def loadSession_try_def loggedInEnv_def quietEnv_def
        exampleSessionManager_def exampleSession_def maxAge_def andThen_def await_def
        verifyLogin_def DELAYS_short_def DELAYS_medium_def DELAYS_long_def
        LOGIN_loginForm_def loggedInIndicators_def)
  from loadSession_rejects_stale_session
         [of staleEnv "[]" exampleSessionManager exampleSession 0] stale
  have first: "loadSession staleEnv exampleSessionManager []
     = (False, exampleSessionManager,
        [Log Info ''Loading Facebook session...'',
         Log Warn ''Session is too old, will require fresh login''])"
    by simp
  from loadSession_rejects_stale_session
         [of loggedInEnv "[]" exampleSessionManager exampleSession 0] ok
  obtain hv sd where hv: "fst (verifyLogin loggedInEnv hv)"
    and eq: "loadSession loggedInEnv exampleSessionManager []
             = (True, exampleSessionManager\<lparr>session := Some sd\<rparr>,
                snd (verifyLogin loggedInEnv hv) @ [Log Info ''Session restored successfully''])"
    by blast
  from sess eq have "sd = exampleSession" by simp
  with first ok hv eq show ?thesis by blast
qed

section \<open>Joining a group\<close>







lemma confirmationLoop_times_out:
  assumes clock: "\<And>h'. dateNow e h' < dateNow e (h' @ [DELAYS_short])"
    and none: "\<And>n. dateNow e (h @ replicate n DELAYS_short) - startTime < maxWait
               \<Longrightarrow> \<not> list_ex (isVisible e (h @ replicate n DELAYS_short)) successIndicators"
  shows "\<exists>n. confirmationLoop e startTime maxWait h = Some (False, h @ replicate n DELAYS_short)"
  using none
proof (induction "nat (startTime + maxWait - dateNow e h)" arbitrary: h rule: less_induct)
  case less
  show ?case
  proof (cases "dateNow e h - startTime < maxWait")
    case False
    then have "confirmationLoop e startTime maxWait h
               = Some (False, h @ replicate 0 DELAYS_short)"
      by (subst confirmationLoop.simps) simp
    then show ?thesis by blast
  next
    case True
    have nv: "\<not> list_ex (isVisible e h) successIndicators"
      using less.prems [of 0] True by simp
    let ?h = "h @ [DELAYS_short]"
    have smaller: "nat (startTime + maxWait - dateNow e ?h)
                   < nat (startTime + maxWait - dateNow e h)"
      using clock [of h] True by linarith
    have shifted: "\<not> list_ex (isVisible e (?h @ replicate n DELAYS_short)) successIndicators"
      if "dateNow e (?h @ replicate n DELAYS_short) - startTime < maxWait" for n
      using less.prems [of "Suc n"] that by (simp add: replicate_app_Cons_same)
    obtain n where "confirmationLoop e startTime maxWait ?h
                    = Some (False, ?h @ replicate n DELAYS_short)"
      using less.hyps [OF smaller shifted] by blast
    then have "confirmationLoop e startTime maxWait h
               = Some (False, h @ replicate (Suc n) DELAYS_short)"
      using True nv by (subst confirmationLoop.simps) (simp add: replicate_app_Cons_same)
    then show ?thesis by blast
  qed
qed

text \<open>
  C6. Take a run of \<open>joinGroup\<close> in which the navigation resolves, the group is neither
  blocked nor already joined, \<open>clickJoinButton\<close> has clicked a join control and
  \<open>handleMembershipQuestions\<close> has succeeded. When every short wait advances the clock
  and no success indicator is visible at any poll made within \<open>maxWaitTime\<close> of the
  start of the confirmation wait, \<open>joinGroup\<close> returns: the result has
  \<open>success = true\<close> and status \<open>pending_approval\<close>, it is pushed on the joined list,
  and the failure list is as before.
\<close>

theorem joinGroup_pending_approval:
  assumes clock: "\<forall>h'. dateNow e h' < dateNow e (h' @ [DELAYS_short])"
    and nav: "await e (Goto target) (h @ [Log Info (''Attempting to join group: '' @ target)])
              = Inr h1"
    and accessible: "checkGroupStatus e (h1 @ [DELAYS_medium]) = (groupStatus, h2)"
      "\<not> blocked groupStatus"
    and notMember: "checkMembershipStatus e h2 = (membershipStatus, h3)"
      "\<not> isMember membershipStatus"
    and clicked: "clickJoinButton e h3 = (joinResult, h4)" "ClickResult.success joinResult"
    and handled: "handleMembershipQuestions e
                    (withDefault (JoinGroupOptions.skipQuestions options) False)
                    (withDefault (questionAnswers options) Map.empty) (h4 @ [DELAYS_medium])
                  = (questionsHandled, h5)"
      "ClickResult.success questionsHandled"
    and none: "\<forall>n. dateNow e (h5 @ replicate n DELAYS_short) - dateNow e h5
                     < withDefault (maxWaitTime options) 30000
               \<longrightarrow> \<not> list_ex (isVisible e (h5 @ replicate n DELAYS_short)) successIndicators"
  shows "\<exists>r hp' n. joinGroup e mgr target options (hp, h)
             = Some (r, hp',
                     h5 @ replicate n DELAYS_short
                     @ [Log Info (''Group join result: pending_approval - ''
                                    @ ''Join request submitted, awaiting approval'')])
           \<and> GroupJoinResult.url r = target
           \<and> GroupJoinResult.success r
           \<and> status r = ''pending_approval''
           \<and> arrays hp' (joinedGroups mgr) = arrays hp (joinedGroups mgr) @ [r]
           \<and> (failedGroups mgr \<noteq> joinedGroups mgr
                \<longrightarrow> arrays hp' (failedGroups mgr) = arrays hp (failedGroups mgr))"
proof -
  obtain n where lp: "waitForJoinConfirmation e (withDefault (maxWaitTime options) 30000) h5
                      = Some (False, h5 @ replicate n DELAYS_short)"
    unfolding waitForJoinConfirmation_def
    using confirmationLoop_times_out
            [of e h5 "dateNow e h5" "withDefault (maxWaitTime options) 30000"]
      clock none by blast
  let ?r = "\<lparr>GroupJoinResult.url = target, GroupJoinResult.success = True,
             status = ''pending_approval'',
             GroupJoinResult.message = ''Join request submitted, awaiting approval'',
             GroupJoinResult.timestamp = dateNow e h\<rparr>"
  have "joinGroup e mgr target options (hp, h)
      = Some (?r, push (joinedGroups mgr) ?r hp,
              h5 @ replicate n DELAYS_short
              @ [Log Info (''Group join result: pending_approval - ''
                             @ ''Join request submitted, awaiting approval'')])"
    using nav accessible notMember clicked handled lp
    by (simp add: joinGroup_def Let_def)
  then show ?thesis
    by (intro exI [of _ ?r] exI [of _ "push (joinedGroups mgr) ?r hp"] exI [of _ n])
       (simp add: push_def)
qed

theorem joinGroup_pending_approval_witness:
  "\<exists>r hp' h'. joinGroup pendingEnv exampleManager exampleGroup exampleOptions (exampleHeap, [])
                 = Some (r, hp', h')
     \<and> GroupJoinResult.success r
     \<and> status r = ''pending_approval''
     \<and> arrays hp' 0 = [r]
     \<and> arrays hp' 1 = []"
proof -
  let ?h1 = "[Log Info (''Attempting to join group: '' @ exampleGroup), Goto exampleGroup]"
  let ?h2 = "?h1 @ [DELAYS_medium, DELAYS_short]"
  let ?h3 = "?h2 @ [DELAYS_short]"
  let ?click = "clickJoinButton pendingEnv ?h3"
  let ?questions = "handleMembershipQuestions pendingEnv
                      (withDefault (JoinGroupOptions.skipQuestions exampleOptions) False)
                      (withDefault (questionAnswers exampleOptions) Map.empty)
                      (snd ?click @ [DELAYS_medium])"
  have clock: "\<forall>h'. dateNow pendingEnv h' < dateNow pendingEnv (h' @ [DELAYS_short])"
    by (simp add: pendingEnv_def quietEnv_def)
  have nav: "await pendingEnv (Goto exampleGroup)
               ([] @ [Log Info (''Attempting to join group: '' @ exampleGroup)]) = Inr ?h1"
    by (simp add: await_def pendingEnv_def quietEnv_def)
  have accessible: "checkGroupStatus pendingEnv (?h1 @ [DELAYS_medium])
                    = (\<lparr>blocked = False, reason = None\<rparr>, ?h2)"
    by (simp add: checkGroupStatus_def pendingEnv_def quietEnv_def blockIndicators_def
        BLOCKS_blocked_def BLOCKS_restricted_def GROUPS_joinButtonAlt_def)
  have notMember: "checkMembershipStatus pendingEnv ?h2 = (\<lparr>isMember = False\<rparr>, ?h3)"
    by (simp add: checkMembershipStatus_def pendingEnv_def quietEnv_def memberIndicators_def
        GROUPS_joinButtonAlt_def)
  have clicked: "ClickResult.success (fst ?click)"
    by (simp add: clickJoinButton_def joinSelectors_def getMultipleSelectors_def GROUPS_def
        pendingEnv_def quietEnv_def GROUPS_joinButtonAlt_def GROUPS_joinButton_def
        SCROLL_toElement_def MOUSE_humanClick_def await_def andThen_def)
  have handled: "ClickResult.success (fst ?questions)"
    by (simp add: handleMembershipQuestions_def pendingEnv_def quietEnv_def
        GROUPS_membershipQuestions_def GROUPS_joinButtonAlt_def)
  have none: "\<forall>n. dateNow pendingEnv (snd ?questions @ replicate n DELAYS_short)
                     - dateNow pendingEnv (snd ?questions)
                     < withDefault (maxWaitTime exampleOptions) 30000
               \<longrightarrow> \<not> list_ex (isVisible pendingEnv (snd ?questions @ replicate n DELAYS_short))
                       successIndicators"
    by (simp add: pendingEnv_def quietEnv_def successIndicators_def GROUPS_joinButtonAlt_def)
  from joinGroup_pending_approval
         [OF clock nav accessible _ notMember _ _ clicked _ handled none,
          of "snd ?click" exampleManager exampleHeap]
  show ?thesis
    by (auto simp: exampleManager_def exampleHeap_def)
qed

section \<open>Accessors return copies\<close>

text \<open>
  C9. For a manager whose two arrays are allocated, each accessor returns a new array,
  at an address other than those of the manager's arrays, that holds the elements of the
  manager's list. Whatever is then written into the returned array (\<open>overwrite\<close> stands
  for any in-place change), both lists of the manager are as before, and a later call
  returns the manager's list again; two calls in a row return equal lists. The same holds
  for \<open>getCreatedPosts\<close> and \<open>getFailedPosts\<close> of \<open>PostManager\<close>.
\<close>

theorem accessors_return_copies:
  assumes "joinedGroups gm < nextFree hp" and "failedGroups gm < nextFree hp"
    and "createdPosts pm < nextFree php" and "failedPosts pm < nextFree php"
  shows "(let (r, hp1) = getJoinedGroups gm hp; (r2, hp2) = getJoinedGroups gm hp1
          in r \<noteq> joinedGroups gm \<and> r \<noteq> failedGroups gm
             \<and> arrays hp1 r = arrays hp (joinedGroups gm)
             \<and> arrays hp2 r2 = arrays hp1 r
             \<and> arrays (overwrite r xs hp1) (joinedGroups gm) = arrays hp (joinedGroups gm)
             \<and> arrays (overwrite r xs hp1) (failedGroups gm) = arrays hp (failedGroups gm)
             \<and> arrays (snd (getJoinedGroups gm (overwrite r xs hp1)))
                  (fst (getJoinedGroups gm (overwrite r xs hp1)))
                = arrays hp (joinedGroups gm))
       \<and> (let (r, hp1) = getFailedGroups gm hp; (r2, hp2) = getFailedGroups gm hp1
          in r \<noteq> joinedGroups gm \<and> r \<noteq> failedGroups gm
             \<and> arrays hp1 r = arrays hp (failedGroups gm)
             \<and> arrays hp2 r2 = arrays hp1 r
             \<and> arrays (overwrite r xs hp1) (joinedGroups gm) = arrays hp (joinedGroups gm)
             \<and> arrays (overwrite r xs hp1) (failedGroups gm) = arrays hp (failedGroups gm)
             \<and> arrays (snd (getFailedGroups gm (overwrite r xs hp1)))
                  (fst (getFailedGroups gm (overwrite r xs hp1)))
                = arrays hp (failedGroups gm))
       \<and> (let (r, hp1) = getCreatedPosts pm php; (r2, hp2) = getCreatedPosts pm hp1
          in r \<noteq> createdPosts pm \<and> r \<noteq> failedPosts pm
             \<and> arrays hp1 r = arrays php (createdPosts pm)
             \<and> arrays hp2 r2 = arrays hp1 r
             \<and> arrays (overwrite r ys hp1) (createdPosts pm) = arrays php (createdPosts pm)
             \<and> arrays (overwrite r ys hp1) (failedPosts pm) = arrays php (failedPosts pm)
             \<and> arrays (snd (getCreatedPosts pm (overwrite r ys hp1)))
                  (fst (getCreatedPosts pm (overwrite r ys hp1)))
                = arrays php (createdPosts pm))
       \<and> (let (r, hp1) = getFailedPosts pm php; (r2, hp2) = getFailedPosts pm hp1
          in r \<noteq> createdPosts pm \<and> r \<noteq> failedPosts pm
             \<and> arrays hp1 r = arrays php (failedPosts pm)
             \<and> arrays hp2 r2 = arrays hp1 r
             \<and> arrays (overwrite r ys hp1) (createdPosts pm) = arrays php (createdPosts pm)
             \<and> arrays (overwrite r ys hp1) (failedPosts pm) = arrays php (failedPosts pm)
             \<and> arrays (snd (getFailedPosts pm (overwrite r ys hp1)))
                  (fst (getFailedPosts pm (overwrite r ys hp1)))
                = arrays php (failedPosts pm))"
proof (intro conjI)
  show "let (r, hp1) = getJoinedGroups gm hp; (r2, hp2) = getJoinedGroups gm hp1
          in r \<noteq> joinedGroups gm \<and> r \<noteq> failedGroups gm
             \<and> arrays hp1 r = arrays hp (joinedGroups gm)
             \<and> arrays hp2 r2 = arrays hp1 r
             \<and> arrays (overwrite r xs hp1) (joinedGroups gm) = arrays hp (joinedGroups gm)
             \<and> arrays (overwrite r xs hp1) (failedGroups gm) = arrays hp (failedGroups gm)
             \<and> arrays (snd (getJoinedGroups gm (overwrite r xs hp1)))
                  (fst (getJoinedGroups gm (overwrite r xs hp1)))
                = arrays hp (joinedGroups gm)"
    using assms(1,2)
    by (auto simp: getJoinedGroups_def newArray_def overwrite_def Let_def)
  show "let (r, hp1) = getFailedGroups gm hp; (r2, hp2) = getFailedGroups gm hp1
          in r \<noteq> joinedGroups gm \<and> r \<noteq> failedGroups gm
             \<and> arrays hp1 r = arrays hp (failedGroups gm)
             \<and> arrays hp2 r2 = arrays hp1 r
             \<and> arrays (overwrite r xs hp1) (joinedGroups gm) = arrays hp (joinedGroups gm)
             \<and> arrays (overwrite r xs hp1) (failedGroups gm) = arrays hp (failedGroups gm)
             \<and> arrays (snd (getFailedGroups gm (overwrite r xs hp1)))
                  (fst (getFailedGroups gm (overwrite r xs hp1)))
                = arrays hp (failedGroups gm)"
    using assms(1,2)
    by (auto simp: getFailedGroups_def newArray_def overwrite_def Let_def)
  show "let (r, hp1) = getCreatedPosts pm php; (r2, hp2) = getCreatedPosts pm hp1
          in r \<noteq> createdPosts pm \<and> r \<noteq> failedPosts pm
             \<and> arrays hp1 r = arrays php (createdPosts pm)
             \<and> arrays hp2 r2 = arrays hp1 r
             \<and> arrays (overwrite r ys hp1) (createdPosts pm) = arrays php (createdPosts pm)
             \<and> arrays (overwrite r ys hp1) (failedPosts pm) = arrays php (failedPosts pm)
             \<and> arrays (snd (getCreatedPosts pm (overwrite r ys hp1)))
                  (fst (getCreatedPosts pm (overwrite r ys hp1)))
                = arrays php (createdPosts pm)"
    using assms(3,4)
    by (auto simp: getCreatedPosts_def newArray_def overwrite_def Let_def)
  show "let (r, hp1) = getFailedPosts pm php; (r2, hp2) = getFailedPosts pm hp1
          in r \<noteq> createdPosts pm \<and> r \<noteq> failedPosts pm
             \<and> arrays hp1 r = arrays php (failedPosts pm)
             \<and> arrays hp2 r2 = arrays hp1 r
             \<and> arrays (overwrite r ys hp1) (createdPosts pm) = arrays php (createdPosts pm)
             \<and> arrays (overwrite r ys hp1) (failedPosts pm) = arrays php (failedPosts pm)
             \<and> arrays (snd (getFailedPosts pm (overwrite r ys hp1)))
                  (fst (getFailedPosts pm (overwrite r ys hp1)))
                = arrays php (failedPosts pm)"
    using assms(3,4)
    by (auto simp: getFailedPosts_def newArray_def overwrite_def Let_def)
qed

lemma example_managers_constructed:
  "newGroupManager emptyHeap = (exampleManager, exampleHeap)
   \<and> newPostManager emptyHeap = (examplePostManager, examplePostHeap)"
  by (simp add: newGroupManager_def newPostManager_def newArray_def emptyHeap_def
      exampleManager_def exampleHeap_def examplePostManager_def examplePostHeap_def fun_eq_iff)

theorem accessors_return_copies_witness:
  "fst (getJoinedGroups exampleManager joinedOnceHeap) = 2
   \<and> arrays (snd (getJoinedGroups exampleManager joinedOnceHeap)) 2 = [exampleResult]
   \<and> arrays (overwrite 2 [] (snd (getJoinedGroups exampleManager joinedOnceHeap))) 0
       = [exampleResult]
   \<and> arrays (snd (getFailedGroups exampleManager joinedOnceHeap)) 2 = []
   \<and> arrays (snd (getCreatedPosts examplePostManager examplePostHeap)) 2 = []
   \<and> arrays (snd (getFailedPosts examplePostManager examplePostHeap)) 2 = []"
proof -
  have alloc: "joinedGroups exampleManager < nextFree joinedOnceHeap"
    "failedGroups exampleManager < nextFree joinedOnceHeap"
    "createdPosts examplePostManager < nextFree examplePostHeap"
    "failedPosts examplePostManager < nextFree examplePostHeap"
    by (simp_all add: exampleManager_def joinedOnceHeap_def exampleHeap_def push_def
        examplePostManager_def examplePostHeap_def)
  have vals: "arrays joinedOnceHeap 0 = [exampleResult]" "arrays joinedOnceHeap 1 = []"
    "nextFree joinedOnceHeap = 2" "arrays examplePostHeap 0 = []" "arrays examplePostHeap 1 = []"
    "nextFree examplePostHeap = 2"
    by (simp_all add: exampleManager_def joinedOnceHeap_def exampleHeap_def push_def
        examplePostHeap_def)
  from accessors_return_copies [OF alloc, of "[]" "[]"] vals
  show ?thesis
    by (simp add: getJoinedGroups_def getFailedGroups_def getCreatedPosts_def
        getFailedPosts_def newArray_def exampleManager_def examplePostManager_def Let_def)
qed

section \<open>Stopping a batch\<close>

text \<open>
  When the cooperative wait before an item returns, the intervention flag has read false
  at the state in which the item starts, and the wait has only logged and slept.
\<close>

lemma waitForIntervention_returns_clear:
  assumes run: "waitForIntervention e h = Some h'"
  shows "\<not> interventionRequired e h'
       \<and> (\<exists>n. h' = h @ concat (replicate n
                   [Log Info ''Waiting for manual intervention to complete...'', DELAYS_medium]))"
proof (rule waitForIntervention.raw_induct
    [where P = "\<lambda>e h h'. \<not> interventionRequired e h'
       \<and> (\<exists>n. h' = h @ concat (replicate n
                   [Log Info ''Waiting for manual intervention to complete...'', DELAYS_medium]))",
     OF _ run])
  fix loop :: "env \<Rightarrow> event list \<Rightarrow> event list option"
  fix e h h'
  let ?w = "[Log Info ''Waiting for manual intervention to complete...'', DELAYS_medium]"
  assume IH: "\<And>e h h'. loop e h = Some h' \<Longrightarrow>
           \<not> interventionRequired e h' \<and> (\<exists>n. h' = h @ concat (replicate n ?w))"
    and step: "(if interventionRequired e h then loop e (h @ ?w) else Some h) = Some h'"
  show "\<not> interventionRequired e h' \<and> (\<exists>n. h' = h @ concat (replicate n ?w))"
  proof (cases "interventionRequired e h")
    case False
    with step have eq: "h' = h" by simp
    then have "h' = h @ concat (replicate 0 ?w)" by simp
    with False eq show ?thesis by blast
  next
    case True
    with step have "loop e (h @ ?w) = Some h'" by simp
    from IH [OF this] obtain n where clear: "\<not> interventionRequired e h'"
      and "h' = (h @ ?w) @ concat (replicate n ?w)" by blast
    then have "h' = h @ concat (replicate (Suc n) ?w)" by simp
    with clear show ?thesis by blast
  qed
qed

lemma joinGroup_pushes_one:
  assumes "joinGroup e mgr target options (hp, h) = Some (r, hp', h')"
  shows "(GroupJoinResult.success r \<and> hp' = push (joinedGroups mgr) r hp)
       \<or> (\<not> GroupJoinResult.success r \<and> hp' = push (failedGroups mgr) r hp)"
  using assms
  by (auto simp: joinGroup_def Let_def split: sum.splits prod.splits if_splits option.splits)

lemma resultCount_push:
  "joinedGroups mgr \<noteq> failedGroups mgr \<Longrightarrow> a = joinedGroups mgr \<or> a = failedGroups mgr
   \<Longrightarrow> resultCount mgr (push a r hp) = Suc (resultCount mgr hp)"
  by (auto simp: resultCount_def push_def)

lemma joinGroupsItem_counts:
  assumes "joinGroupsItem e mgr options n i target (c, hp, h) = Some (c', hp', h')"
  shows "groupsJoined c' + errors c' = Suc (groupsJoined c + errors c)
       \<and> (joinedGroups mgr \<noteq> failedGroups mgr \<longrightarrow> resultCount mgr hp' = Suc (resultCount mgr hp))"
proof -
  from assms obtain h1 r h2 where w: "waitForIntervention e
                (h @ [Log Info (''Processing group '' @ showNat (i + 1) @ ''/'' @ showNat n
                                  @ '': '' @ target)]) = Some h1"
    and j: "joinGroup e mgr target options (hp, h1) = Some (r, hp', h2)"
    and c: "c' = (if GroupJoinResult.success r
                         then c\<lparr>groupsJoined := groupsJoined c + 1\<rparr>
                         else c\<lparr>errors := errors c + 1\<rparr>)"
    by (auto simp: joinGroupsItem_def Let_def split: option.splits prod.splits)
  from joinGroup_pushes_one [OF j] c show ?thesis
    by (auto simp: resultCount_push)
qed

lemma joinGroupsItems_counts:
  "joinGroupsItems e mgr options n i targets (c, hp, h) = Some (c', hp', h')
   \<Longrightarrow> groupsJoined c' + errors c' = groupsJoined c + errors c + length targets
       \<and> (joinedGroups mgr \<noteq> failedGroups mgr
            \<longrightarrow> resultCount mgr hp' = resultCount mgr hp + length targets)"
proof (induction targets arbitrary: i c hp h)
  case Nil
  then show ?case by simp
next
  case (Cons t ts)
  from Cons.prems obtain c1 hp1 h1 where
    one: "joinGroupsItem e mgr options n i t (c, hp, h) = Some (c1, hp1, h1)"
    and more: "joinGroupsItems e mgr options n (Suc i) ts (c1, hp1, h1) = Some (c', hp', h')"
    by (auto split: option.splits)
  from joinGroupsItem_counts [OF one] Cons.IH [OF more] show ?case by auto
qed

lemma joinGroupsLoop_stops:
  assumes "k < length targets"
    and "joinGroupsItems e mgr options n i (take k targets) st = Some (c, hp, h)"
    and "\<forall>j<k. \<forall>c' hp' h'. joinGroupsItems e mgr options n i (take j targets) st = Some (c', hp', h')
             \<longrightarrow> \<not> shouldStop e h'"
    and "shouldStop e h"
  shows "joinGroupsLoop e mgr options n i targets st
         = Some (c, hp, h @ [Log Info ''Stopping group joining due to user request''])"
  using assms
proof (induction k arbitrary: i targets st)
  case 0
  then obtain t ts where "targets = t # ts" by (cases targets) auto
  with 0 show ?case by (auto simp: Let_def)
next
  case (Suc k)
  then obtain t ts where ts: "targets = t # ts" by (cases targets) auto
  obtain c0 hp0 h0 where st: "st = (c0, hp0, h0)" by (cases st) auto
  have go: "\<not> shouldStop e h0"
    using Suc.prems(3) st by (auto dest: spec [of _ 0])
  from Suc.prems(2) ts obtain st1 where
    one: "joinGroupsItem e mgr options n i t st = Some st1"
    and more: "joinGroupsItems e mgr options n (Suc i) (take k ts) st1 = Some (c, hp, h)"
    by (auto split: option.splits)
  have before: "\<forall>j<k. \<forall>c' hp' h'. joinGroupsItems e mgr options n (Suc i) (take j ts) st1 = Some (c', hp', h')
             \<longrightarrow> \<not> shouldStop e h'"
  proof (intro allI impI)
    fix j c' hp' h'
    assume "j < k" and "joinGroupsItems e mgr options n (Suc i) (take j ts) st1 = Some (c', hp', h')"
    then have "Suc j < Suc k" and "joinGroupsItems e mgr options n i (take (Suc j) targets) st = Some (c', hp', h')"
      using one ts by auto
    with Suc.prems(3) show "\<not> shouldStop e h'" by blast
  qed
  have "k < length ts" using Suc.prems(1) ts by simp
  from Suc.IH [OF this more before Suc.prems(4)]
  show ?case using ts st go one by (simp add: Let_def)
qed



lemma confirmationLoop_agree_Some:
  assumes run: "confirmationLoop e startTime maxWait h = Some y"
  shows "\<forall>e' :: env. isVisible e' = isVisible e \<and> dateNow e' = dateNow e
           \<longrightarrow> confirmationLoop e' startTime maxWait h = Some y"
proof (rule confirmationLoop.raw_induct
    [where P = "\<lambda>e startTime maxWait h y. \<forall>e' :: env. isVisible e' = isVisible e \<and> dateNow e' = dateNow e
           \<longrightarrow> confirmationLoop e' startTime maxWait h = Some y", OF _ run])
  fix loop :: "env \<Rightarrow> int \<Rightarrow> int \<Rightarrow> event list \<Rightarrow> (bool \<times> event list) option"
  fix e startTime maxWait h y
  assume IH: "\<And>e startTime maxWait h y. loop e startTime maxWait h = Some y \<Longrightarrow>
           \<forall>e' :: env. isVisible e' = isVisible e \<and> dateNow e' = dateNow e
           \<longrightarrow> confirmationLoop e' startTime maxWait h = Some y"
    and step: "(if dateNow e h - startTime < maxWait
      then if list_ex (isVisible e h) successIndicators then Some (True, h)
           else loop e startTime maxWait (h @ [DELAYS_short])
      else Some (False, h)) = Some y"
  show "\<forall>e' :: env. isVisible e' = isVisible e \<and> dateNow e' = dateNow e
           \<longrightarrow> confirmationLoop e' startTime maxWait h = Some y"
  proof (intro allI impI)
    fix e' :: env
    assume ag: "isVisible e' = isVisible e \<and> dateNow e' = dateNow e"
    show "confirmationLoop e' startTime maxWait h = Some y"
      using step ag IH by (subst confirmationLoop.simps) (auto split: if_splits)
  qed
qed

lemma confirmationLoop_agree:
  assumes "isVisible e' = isVisible e" "dateNow e' = dateNow e"
  shows "confirmationLoop e' startTime maxWait h = confirmationLoop e startTime maxWait h"
proof (cases "confirmationLoop e startTime maxWait h")
  case (Some y)
  then show ?thesis using confirmationLoop_agree_Some [OF Some] assms by simp
next
  case None
  show ?thesis
  proof (cases "confirmationLoop e' startTime maxWait h")
    case None
    with \<open>confirmationLoop e startTime maxWait h = None\<close> show ?thesis by simp
  next
    case (Some y)
    from confirmationLoop_agree_Some [OF Some] assms None
    show ?thesis by simp
  qed
qed

lemma waitForIntervention_agree_Some:
  assumes run: "waitForIntervention e h = Some y"
  shows "\<forall>e' :: env. interventionRequired e' = interventionRequired e \<longrightarrow> waitForIntervention e' h = Some y"
proof (rule waitForIntervention.raw_induct
    [where P = "\<lambda>e h y. \<forall>e' :: env. interventionRequired e' = interventionRequired e \<longrightarrow> waitForIntervention e' h = Some y", OF _ run])
  fix loop :: "env \<Rightarrow> event list \<Rightarrow> event list option"
  fix e h y
  assume IH: "\<And>e h y. loop e h = Some y \<Longrightarrow>
           \<forall>e' :: env. interventionRequired e' = interventionRequired e \<longrightarrow> waitForIntervention e' h = Some y"
    and step: "(if interventionRequired e h
      then loop e
             (h @ [Log Info ''Waiting for manual intervention to complete...'', DELAYS_medium])
      else Some h) = Some y"
  show "\<forall>e' :: env. interventionRequired e' = interventionRequired e \<longrightarrow> waitForIntervention e' h = Some y"
  proof (intro allI impI)
    fix e' :: env
    assume ag: "interventionRequired e' = interventionRequired e"
    show "waitForIntervention e' h = Some y"
      using step ag IH by (subst waitForIntervention.simps) (auto split: if_splits)
  qed
qed

lemma waitForIntervention_agree:
  assumes "interventionRequired e' = interventionRequired e"
  shows "waitForIntervention e' h = waitForIntervention e h"
proof (cases "waitForIntervention e h")
  case (Some y)
  then show ?thesis using waitForIntervention_agree_Some [OF Some] assms by simp
next
  case None
  show ?thesis
  proof (cases "waitForIntervention e' h")
    case None
    with \<open>waitForIntervention e h = None\<close> show ?thesis by simp
  next
    case (Some y)
    from waitForIntervention_agree_Some [OF Some] assms None
    show ?thesis by simp
  qed
qed

lemma await_stop: "await (e\<lparr>shouldStop := f\<rparr>) ev h = await e ev h"
  by (simp add: await_def)

lemma SCROLL_stop: "SCROLL_toElement (e\<lparr>shouldStop := f\<rparr>) s h = SCROLL_toElement e s h"
  by (simp add: SCROLL_toElement_def await_stop)

lemma MOUSE_stop: "MOUSE_humanClick (e\<lparr>shouldStop := f\<rparr>) s h = MOUSE_humanClick e s h"
  by (simp add: MOUSE_humanClick_def await_stop)

lemma tryJoinSelectors_stop:
  "tryJoinSelectors (e\<lparr>shouldStop := f\<rparr>) sels h = tryJoinSelectors e sels h"
  by (induction sels arbitrary: h) (auto simp: SCROLL_stop MOUSE_stop split: sum.splits)

lemma answerEach_stop:
  "answerEach (e\<lparr>shouldStop := f\<rparr>) answers is h = answerEach e answers is h"
proof (induction "is" arbitrary: h)
  case Nil
  show ?case by simp
next
  case (Cons i rest)
  have "andThen r (\<lambda>h2. answerEach (e\<lparr>shouldStop := f\<rparr>) answers rest (g h2))
      = andThen r (\<lambda>h2. answerEach e answers rest (g h2))" for r g
    by (simp add: Cons.IH)
  then show ?case by (simp add: await_stop Let_def)
qed

lemma submitQuestions_stop: "submitQuestions (e\<lparr>shouldStop := f\<rparr>) h = submitQuestions e h"
  by (simp add: submitQuestions_def MOUSE_stop cong: if_cong option.case_cong)

lemma handleMembershipQuestions_stop:
  "handleMembershipQuestions (e\<lparr>shouldStop := f\<rparr>) skip answers h = handleMembershipQuestions e skip answers h"
proof -
  have s: "skipQuestions (e\<lparr>shouldStop := f\<rparr>) = skipQuestions e"
    by (simp add: skipQuestions_def submitQuestions_stop MOUSE_stop fun_eq_iff cong: if_cong)
  have a: "answerQuestions (e\<lparr>shouldStop := f\<rparr>) = answerQuestions e"
    by (simp add: answerQuestions_def submitQuestions_stop answerEach_stop await_stop
        fun_eq_iff Let_def cong: if_cong)
  show ?thesis
    unfolding handleMembershipQuestions_def s a by simp
qed

lemma joinGroup_stop:
  "joinGroup (e\<lparr>shouldStop := f\<rparr>) mgr target options st = joinGroup e mgr target options st"
proof -
  have a: "checkGroupStatus (e\<lparr>shouldStop := f\<rparr>) = checkGroupStatus e"
    by (simp add: checkGroupStatus_def fun_eq_iff Let_def cong: if_cong option.case_cong)
  have b: "checkMembershipStatus (e\<lparr>shouldStop := f\<rparr>) = checkMembershipStatus e"
    by (simp add: checkMembershipStatus_def fun_eq_iff Let_def cong: if_cong)
  have c: "clickJoinButton (e\<lparr>shouldStop := f\<rparr>) = clickJoinButton e"
    by (simp add: clickJoinButton_def tryJoinSelectors_stop fun_eq_iff)
  have d: "handleMembershipQuestions (e\<lparr>shouldStop := f\<rparr>) = handleMembershipQuestions e"
    by (simp add: handleMembershipQuestions_stop fun_eq_iff)
  have w: "waitForJoinConfirmation (e\<lparr>shouldStop := f\<rparr>) = waitForJoinConfirmation e"
    by (simp add: waitForJoinConfirmation_def fun_eq_iff
        confirmationLoop_agree [of "e\<lparr>shouldStop := f\<rparr>" e])
  have g: "await (e\<lparr>shouldStop := f\<rparr>) = await e"
    by (simp add: await_stop fun_eq_iff)
  show ?thesis
    unfolding joinGroup_def a b c d w g by simp
qed

lemma joinGroupsItem_ignores_stop:
  "joinGroupsItem (e\<lparr>shouldStop := f\<rparr>) mgr options n i target st = joinGroupsItem e mgr options n i target st"
proof -
  have w: "waitForIntervention (e\<lparr>shouldStop := f\<rparr>) = waitForIntervention e"
    by (simp add: fun_eq_iff waitForIntervention_agree [of "e\<lparr>shouldStop := f\<rparr>" e])
  have j: "joinGroup (e\<lparr>shouldStop := f\<rparr>) = joinGroup e"
    by (simp add: fun_eq_iff joinGroup_stop)
  show ?thesis
    unfolding joinGroupsItem_def w j by simp
qed


lemma createPostsItem_counts:
  assumes "createPostsItem e createPost postTemplate n i target (c, hp, h) = Some (c', hp', h')"
  shows "postsCreated c' + errors c' = Suc (postsCreated c + errors c)"
  using assms
  by (auto simp: createPostsItem_def Let_def split: option.splits prod.splits sum.splits if_splits)

lemma createPostsItems_counts:
  "createPostsItems e createPost postTemplate n i targets (c, hp, h) = Some (c', hp', h')
   \<Longrightarrow> postsCreated c' + errors c' = postsCreated c + errors c + length targets"
proof (induction targets arbitrary: i c hp h)
  case Nil
  then show ?case by simp
next
  case (Cons t ts)
  from Cons.prems obtain c1 hp1 h1 where
    one: "createPostsItem e createPost postTemplate n i t (c, hp, h) = Some (c1, hp1, h1)"
    and more: "createPostsItems e createPost postTemplate n (Suc i) ts (c1, hp1, h1) = Some (c', hp', h')"
    by (auto split: option.splits)
  from createPostsItem_counts [OF one] Cons.IH [OF more] show ?case by auto
qed

lemma createPostsLoop_stops:
  assumes "k < length targets"
    and "createPostsItems e createPost postTemplate n i (take k targets) st = Some (c, hp, h)"
    and "\<forall>j<k. \<forall>c' hp' h'. createPostsItems e createPost postTemplate n i (take j targets) st
                               = Some (c', hp', h')
             \<longrightarrow> \<not> shouldStop e h'"
    and "shouldStop e h"
  shows "createPostsLoop e createPost postTemplate n i targets st
         = Some (c, hp, h @ [Log Info ''Stopping post creation due to user request''])"
  using assms
proof (induction k arbitrary: i targets st)
  case 0
  then obtain t ts where "targets = t # ts" by (cases targets) auto
  with 0 show ?case by (auto simp: Let_def)
next
  case (Suc k)
  then obtain t ts where ts: "targets = t # ts" by (cases targets) auto
  obtain c0 hp0 h0 where st: "st = (c0, hp0, h0)" by (cases st) auto
  have go: "\<not> shouldStop e h0"
    using Suc.prems(3) st by (auto dest: spec [of _ 0])
  from Suc.prems(2) ts obtain st1 where
    one: "createPostsItem e createPost postTemplate n i t st = Some st1"
    and more: "createPostsItems e createPost postTemplate n (Suc i) (take k ts) st1 = Some (c, hp, h)"
    by (auto split: option.splits)
  have before: "\<forall>j<k. \<forall>c' hp' h'. createPostsItems e createPost postTemplate n (Suc i) (take j ts) st1
                                    = Some (c', hp', h')
             \<longrightarrow> \<not> shouldStop e h'"
  proof (intro allI impI)
    fix j c' hp' h'
    assume "j < k"
      and "createPostsItems e createPost postTemplate n (Suc i) (take j ts) st1 = Some (c', hp', h')"
    then have "Suc j < Suc k"
      and "createPostsItems e createPost postTemplate n i (take (Suc j) targets) st = Some (c', hp', h')"
      using one ts by auto
    with Suc.prems(3) show "\<not> shouldStop e h'" by blast
  qed
  have "k < length ts" using Suc.prems(1) ts by simp
  from Suc.IH [OF this more before Suc.prems(4)]
  show ?case using ts st go one by (simp add: Let_def)
qed

lemma createPostsItem_ignores_stop:
  "createPostsItem (e\<lparr>shouldStop := f\<rparr>) createPost postTemplate n i target st
   = createPostsItem e createPost postTemplate n i target st"
proof -
  have w: "waitForIntervention (e\<lparr>shouldStop := f\<rparr>) = waitForIntervention e"
    by (simp add: fun_eq_iff waitForIntervention_agree [of "e\<lparr>shouldStop := f\<rparr>" e])
  show ?thesis
    unfolding createPostsItem_def w by simp
qed

text \<open>
  C7. Let the stop flag be unset at the item boundaries before the first \<open>k\<close> items of a
  batch and set at the boundary after them, with \<open>k\<close> below the batch size, and let those
  \<open>k\<close> items complete. Then \<open>joinGroups\<close> returns in the state that the \<open>k\<close>-th item
  left, with nothing added but the stop line and the closing line of the log: no further
  item is attempted, the store of results is that of the \<open>k\<close> completed items, exactly
  \<open>k\<close> results have been counted (joined plus errors) and, the manager's two arrays being
  distinct, exactly \<open>k\<close> results have been stored. The same holds for \<open>createPosts\<close>
  with any \<open>createPost\<close>. The flag is read at the item boundary only: what an item does
  is the same whatever the flag says while it runs.
\<close>

theorem batch_stops_at_item_boundary:
  "(groupManager this = Some mgr \<and> alertSystem this \<and> k < length targets
    \<and> joinGroupsItems e mgr options (length targets) 0 (take k targets)
         (stats this, hp0,
          h0 @ [Log Info (''Starting to join '' @ showNat (length targets) @ '' groups'')])
        = Some (c, hp, h)
    \<and> (\<forall>j<k. \<forall>c' hp' h'.
          joinGroupsItems e mgr options (length targets) 0 (take j targets)
            (stats this, hp0,
             h0 @ [Log Info (''Starting to join '' @ showNat (length targets) @ '' groups'')])
          = Some (c', hp', h')
          \<longrightarrow> \<not> shouldStop e h')
    \<and> shouldStop e h
    \<longrightarrow> joinGroups e this targets options (hp0, h0)
          = Some (Inr (this\<lparr>stats := c\<rparr>, hp,
                       h @ [Log Info ''Stopping group joining due to user request'',
                            Log Info (''Group joining completed. Joined: ''
                                        @ showNat (groupsJoined c))]))
        \<and> groupsJoined c + errors c = groupsJoined (stats this) + errors (stats this) + k
        \<and> (joinedGroups mgr \<noteq> failedGroups mgr
             \<longrightarrow> resultCount mgr hp = resultCount mgr hp0 + k))
   \<and> (postManager this = Some pmgr \<and> alertSystem this \<and> k < length targets
    \<and> createPostsItems e createPost postTemplate (length targets) 0 (take k targets)
         (stats this, php0,
          h0 @ [Log Info (''Starting to create posts in '' @ showNat (length targets)
                            @ '' groups'')])
        = Some (pc, php, ph)
    \<and> (\<forall>j<k. \<forall>c' hp' h'.
          createPostsItems e createPost postTemplate (length targets) 0 (take j targets)
            (stats this, php0,
             h0 @ [Log Info (''Starting to create posts in '' @ showNat (length targets)
                               @ '' groups'')])
          = Some (c', hp', h')
          \<longrightarrow> \<not> shouldStop e h')
    \<and> shouldStop e ph
    \<longrightarrow> createPosts e createPost this targets postTemplate (php0, h0)
          = Some (Inr (this\<lparr>stats := pc\<rparr>, php,
                       ph @ [Log Info ''Stopping post creation due to user request'',
                             Log Info (''Post creation completed. Created: ''
                                         @ showNat (postsCreated pc))]))
        \<and> postsCreated pc + errors pc = postsCreated (stats this) + errors (stats this) + k)
   \<and> joinGroupsItem (e\<lparr>shouldStop := f\<rparr>) mgr options n i target st
       = joinGroupsItem e mgr options n i target st
   \<and> createPostsItem (e\<lparr>shouldStop := f\<rparr>) createPost postTemplate n i target pst
       = createPostsItem e createPost postTemplate n i target pst"
proof (intro conjI impI)
  let ?start = "(stats this, hp0,
          h0 @ [Log Info (''Starting to join '' @ showNat (length targets) @ '' groups'')])"
  assume a: "groupManager this = Some mgr \<and> alertSystem this \<and> k < length targets
    \<and> joinGroupsItems e mgr options (length targets) 0 (take k targets) ?start = Some (c, hp, h)
    \<and> (\<forall>j<k. \<forall>c' hp' h'.
          joinGroupsItems e mgr options (length targets) 0 (take j targets) ?start
          = Some (c', hp', h')
          \<longrightarrow> \<not> shouldStop e h')
    \<and> shouldStop e h"
  then have "joinGroupsLoop e mgr options (length targets) 0 targets ?start
          = Some (c, hp, h @ [Log Info ''Stopping group joining due to user request''])"
    using joinGroupsLoop_stops [of k targets e mgr options "length targets" 0 ?start c hp h]
    by blast
  with a show "joinGroups e this targets options (hp0, h0)
          = Some (Inr (this\<lparr>stats := c\<rparr>, hp,
                       h @ [Log Info ''Stopping group joining due to user request'',
                            Log Info (''Group joining completed. Joined: ''
                                        @ showNat (groupsJoined c))]))"
    by (simp add: joinGroups_def)
  from a have ran: "joinGroupsItems e mgr options (length targets) 0 (take k targets) ?start
                    = Some (c, hp, h)" by simp
  from a have len: "length (take k targets) = k" by simp
  from joinGroupsItems_counts [OF ran] len
  show "groupsJoined c + errors c = groupsJoined (stats this) + errors (stats this) + k"
    by simp
  assume "joinedGroups mgr \<noteq> failedGroups mgr"
  with joinGroupsItems_counts [OF ran] len
  show "resultCount mgr hp = resultCount mgr hp0 + k" by simp
next
  let ?start = "(stats this, php0,
          h0 @ [Log Info (''Starting to create posts in '' @ showNat (length targets)
                            @ '' groups'')])"
  assume a: "postManager this = Some pmgr \<and> alertSystem this \<and> k < length targets
    \<and> createPostsItems e createPost postTemplate (length targets) 0 (take k targets) ?start
        = Some (pc, php, ph)
    \<and> (\<forall>j<k. \<forall>c' hp' h'.
          createPostsItems e createPost postTemplate (length targets) 0 (take j targets) ?start
          = Some (c', hp', h')
          \<longrightarrow> \<not> shouldStop e h')
    \<and> shouldStop e ph"
  then have "createPostsLoop e createPost postTemplate (length targets) 0 targets ?start
          = Some (pc, php, ph @ [Log Info ''Stopping post creation due to user request''])"
    using createPostsLoop_stops
            [of k targets e createPost postTemplate "length targets" 0 ?start pc php ph]
    by blast
  with a show "createPosts e createPost this targets postTemplate (php0, h0)
          = Some (Inr (this\<lparr>stats := pc\<rparr>, php,
                       ph @ [Log Info ''Stopping post creation due to user request'',
                             Log Info (''Post creation completed. Created: ''
                                         @ showNat (postsCreated pc))]))"
    by (simp add: createPosts_def)
  from a have ran: "createPostsItems e createPost postTemplate (length targets) 0
                      (take k targets) ?start = Some (pc, php, ph)" by simp
  from a have len: "length (take k targets) = k" by simp
  from createPostsItems_counts [OF ran] len
  show "postsCreated pc + errors pc = postsCreated (stats this) + errors (stats this) + k"
    by simp
next
  show "joinGroupsItem (e\<lparr>shouldStop := f\<rparr>) mgr options n i target st
       = joinGroupsItem e mgr options n i target st"
    by (rule joinGroupsItem_ignores_stop)
  show "createPostsItem (e\<lparr>shouldStop := f\<rparr>) createPost postTemplate n i target pst
       = createPostsItem e createPost postTemplate n i target pst"
    by (rule createPostsItem_ignores_stop)
qed

theorem batch_stops_at_item_boundary_witness:
  "\<exists>c hp h. joinGroups stopAfterTwoEnv exampleAutomation fiveGroups exampleOptions (exampleHeap, [])
               = Some (Inr (exampleAutomation\<lparr>stats := c\<rparr>, hp, h))
     \<and> groupsJoined c + errors c = 2
     \<and> resultCount exampleManager hp = 2
     \<and> length (filter isGoto h) = 2
     \<and> (\<exists>pc php ph. createPosts stopAfterTwoEnv exampleCreatePost exampleAutomation fiveGroups
                        examplePost (emptyHeap, [])
                      = Some (Inr (exampleAutomation\<lparr>stats := pc\<rparr>, php, ph))
          \<and> postsCreated pc + errors pc = 2
          \<and> length (filter isGoto ph) = 2)"
proof -
  let ?start = "(stats exampleAutomation, exampleHeap,
                 [] @ [Log Info (''Starting to join '' @ showNat (length fiveGroups) @ '' groups'')])"
  let ?pstart = "(stats exampleAutomation, emptyHeap :: PostResult heap,
                 [] @ [Log Info (''Starting to create posts in '' @ showNat (length fiveGroups)
                                   @ '' groups'')])"
  note ev = stopAfterTwoEnv_def blockedEnv_def quietEnv_def exampleManager_def
    exampleOptions_def exampleHeap_def zeroStats_def fiveGroups_def exampleAutomation_def
    joinGroupsItem_def waitForIntervention.simps joinGroup_def await_def checkGroupStatus_def
    blockIndicators_def BLOCKS_blocked_def BLOCKS_restricted_def orDefault_def withDefault_def
    push_def showNat.simps DELAYS_short_def DELAYS_medium_def
  note pv = stopAfterTwoEnv_def blockedEnv_def quietEnv_def zeroStats_def fiveGroups_def
    exampleAutomation_def createPostsItem_def waitForIntervention.simps exampleCreatePost_def
    examplePost_def emptyHeap_def push_def showNat.simps DELAYS_medium_def Let_def
  have "\<exists>c hp h. joinGroupsItems stopAfterTwoEnv exampleManager exampleOptions (length fiveGroups) 0
                  (take 2 fiveGroups) ?start = Some (c, hp, h)
             \<and> length (filter isGoto h) = 2"
    by (simp add: ev)
  then obtain c hp h where
    run: "joinGroupsItems stopAfterTwoEnv exampleManager exampleOptions (length fiveGroups) 0
            (take 2 fiveGroups) ?start = Some (c, hp, h)"
    and visits: "length (filter isGoto h) = 2"
    by blast
  have one: "\<exists>c hp h. joinGroupsItems stopAfterTwoEnv exampleManager exampleOptions
                  (length fiveGroups) 0 (take 1 fiveGroups) ?start = Some (c, hp, h)
             \<and> \<not> shouldStop stopAfterTwoEnv h"
    by (simp add: ev)
  have before: "\<forall>j<2. \<forall>c' hp' h'.
          joinGroupsItems stopAfterTwoEnv exampleManager exampleOptions (length fiveGroups) 0
            (take j fiveGroups) ?start = Some (c', hp', h')
          \<longrightarrow> \<not> shouldStop stopAfterTwoEnv h'"
  proof (intro allI impI)
    fix j :: nat and c' hp' h'
    assume "j < 2"
      and r: "joinGroupsItems stopAfterTwoEnv exampleManager exampleOptions (length fiveGroups) 0
            (take j fiveGroups) ?start = Some (c', hp', h')"
    then consider "j = 0" | "j = 1" by linarith
    then show "\<not> shouldStop stopAfterTwoEnv h'"
    proof cases
      case 1
      with r show ?thesis by (auto simp: stopAfterTwoEnv_def)
    next
      case 2
      with r one show ?thesis by auto
    qed
  qed
  have stop: "shouldStop stopAfterTwoEnv h"
    using visits by (simp add: stopAfterTwoEnv_def)
  have "\<exists>c hp h. createPostsItems stopAfterTwoEnv exampleCreatePost examplePost
                  (length fiveGroups) 0 (take 2 fiveGroups) ?pstart = Some (c, hp, h)
             \<and> length (filter isGoto h) = 2"
    by (simp add: pv)
  then obtain pc php ph where
    prun: "createPostsItems stopAfterTwoEnv exampleCreatePost examplePost (length fiveGroups) 0
            (take 2 fiveGroups) ?pstart = Some (pc, php, ph)"
    and pvisits: "length (filter isGoto ph) = 2"
    by blast
  have pone: "\<exists>c hp h. createPostsItems stopAfterTwoEnv exampleCreatePost examplePost
                  (length fiveGroups) 0 (take 1 fiveGroups) ?pstart = Some (c, hp, h)
             \<and> \<not> shouldStop stopAfterTwoEnv h"
    by (simp add: pv)
  have pbefore: "\<forall>j<2. \<forall>c' hp' h'.
          createPostsItems stopAfterTwoEnv exampleCreatePost examplePost (length fiveGroups) 0
            (take j fiveGroups) ?pstart = Some (c', hp', h')
          \<longrightarrow> \<not> shouldStop stopAfterTwoEnv h'"
  proof (intro allI impI)
    fix j :: nat and c' hp' h'
    assume "j < 2"
      and r: "createPostsItems stopAfterTwoEnv exampleCreatePost examplePost (length fiveGroups) 0
            (take j fiveGroups) ?pstart = Some (c', hp', h')"
    then consider "j = 0" | "j = 1" by linarith
    then show "\<not> shouldStop stopAfterTwoEnv h'"
    proof cases
      case 1
      with r show ?thesis by (auto simp: stopAfterTwoEnv_def)
    next
      case 2
      with r pone show ?thesis by auto
    qed
  qed
  have pstop: "shouldStop stopAfterTwoEnv ph"
    using pvisits by (simp add: stopAfterTwoEnv_def)
  have init: "groupManager exampleAutomation = Some exampleManager"
    "postManager exampleAutomation = Some examplePostManager"
    "alertSystem exampleAutomation" "2 < length fiveGroups"
    "joinedGroups exampleManager \<noteq> failedGroups exampleManager"
    "stats exampleAutomation = zeroStats" "resultCount exampleManager exampleHeap = 0"
    by (simp_all add: exampleAutomation_def fiveGroups_def exampleManager_def
        resultCount_def exampleHeap_def)
  from batch_stops_at_item_boundary
         [of exampleAutomation exampleManager 2 fiveGroups stopAfterTwoEnv exampleOptions
             exampleHeap "[]" c hp h examplePostManager exampleCreatePost examplePost
             emptyHeap pc php ph]
    init run before stop prun pbefore pstop
  have j: "joinGroups stopAfterTwoEnv exampleAutomation fiveGroups exampleOptions (exampleHeap, [])
          = Some (Inr (exampleAutomation\<lparr>stats := c\<rparr>, hp,
                       h @ [Log Info ''Stopping group joining due to user request'',
                            Log Info (''Group joining completed. Joined: ''
                                        @ showNat (groupsJoined c))]))"
    and jc: "groupsJoined c + errors c = 2" and jr: "resultCount exampleManager hp = 2"
    and p: "createPosts stopAfterTwoEnv exampleCreatePost exampleAutomation fiveGroups
              examplePost (emptyHeap, [])
          = Some (Inr (exampleAutomation\<lparr>stats := pc\<rparr>, php,
                       ph @ [Log Info ''Stopping post creation due to user request'',
                             Log Info (''Post creation completed. Created: ''
                                         @ showNat (postsCreated pc))]))"
    and pcnt: "postsCreated pc + errors pc = 2"
    by (simp_all add: zeroStats_def)
  have posts: "\<exists>pc php ph. createPosts stopAfterTwoEnv exampleCreatePost exampleAutomation
                        fiveGroups examplePost (emptyHeap, [])
                      = Some (Inr (exampleAutomation\<lparr>stats := pc\<rparr>, php, ph))
          \<and> postsCreated pc + errors pc = 2
          \<and> length (filter isGoto ph) = 2"
    using p pcnt pvisits
    by (intro exI [of _ pc] exI [of _ php]
          exI [of _ "ph @ [Log Info ''Stopping post creation due to user request'',
                           Log Info (''Post creation completed. Created: ''
                                       @ showNat (postsCreated pc))]"]) simp
  show ?thesis
    using j jc jr visits posts
    by (intro exI [of _ c] exI [of _ hp]
          exI [of _ "h @ [Log Info ''Stopping group joining due to user request'',
                          Log Info (''Group joining completed. Joined: ''
                                      @ showNat (groupsJoined c))]"]) simp
qed

end
